theory Spec2Isabelle
  imports Main "HOL-Library.Word"
begin

section \<open>Solidity values, reverts and checked arithmetic\<close>

text \<open>
  The contracts are compiled with Solidity 0.8: every \<open>uint256\<close> operation is checked and
  an overflow or underflow aborts the call with a panic. A \<open>uint256\<close> is modelled as a
  natural number and each arithmetic operation of the source carries its range check.
  A call that reverts leaves no state behind: the operations return \<open>Inl\<close> of the error
  and no state, and the caller keeps the state it had.
\<close>

type_synonym address = "160 word"
type_synonym uint256 = nat

datatype error =
    Revert string   \<comment> \<open>\<open>require(cond, message)\<close>, with the message of the source\<close>
  | Custom string   \<comment> \<open>a custom error of an inherited OpenZeppelin contract, by its name\<close>
  | Panic           \<comment> \<open>checked arithmetic: overflow or underflow\<close>
  | ForeignRevert   \<comment> \<open>the revert of a called contract, passed on with its data\<close>
  | EmptyRevert     \<comment> \<open>a revert without data: an ether \<open>transfer\<close> that fails\<close>

definition MAX_UINT256 :: nat where
  "MAX_UINT256 = 2 ^ 256 - 1"

definition MAX_UINT128 :: nat where
  "MAX_UINT128 = 2 ^ 128 - 1"

definition zeroAddress :: address where
  "zeroAddress = 0"

text \<open>The error taxonomy of the specification (section 7), and the class of each revert.\<close>

datatype error_class =
    ValidationError | AuthorizationError | StateError | InsufficientPower
  | InsufficientFunds | NotFound | QuorumNotMet | NotApproved | OtherError

definition validationMessages :: "string list" where
  "validationMessages =
    [''VotingMechanisms: votes must be greater than 0'',
     ''VotingMechanisms: votes too large'',
     ''DAOGovernance: votes must be greater than 0'',
     ''DAOGovernance: exceeds max votes per wallet'',
     ''DAOGovernance: title cannot be empty'',
     ''DAOGovernance: IPFS hash cannot be empty'']"

definition stateMessages :: "string list" where
  "stateMessages =
    [''DAOGovernance: voting not started'',
     ''DAOGovernance: voting ended'',
     ''DAOGovernance: proposal not active'',
     ''DAOGovernance: already voted'',
     ''DAOGovernance: voting still active'',
     ''DAOGovernance: proposal already executed'',
     ''DAOGovernance: proposal cancelled'',
     ''DAOGovernance: cannot cancel executed proposal'',
     ''DAOGovernance: proposal already cancelled'',
     ''DAOGovernance: proposal cooldown not met'']"

fun errorClass :: "error \<Rightarrow> error_class" where
  "errorClass (Revert m) =
     (if m \<in> set validationMessages then ValidationError
      else if m \<in> set stateMessages then StateError
      else if m = ''DAOGovernance: insufficient voting power'' then InsufficientPower
      else if m = ''DAOGovernance: quorum not met'' then QuorumNotMet
      else if m = ''DAOGovernance: proposal does not exist'' then NotFound
      else if m = ''DAOGovernance: no active delegation'' then NotFound
      else if m = ''DAOGovernance: only proposer or owner can cancel'' then AuthorizationError
      else if m = ''DAOGovernance: insufficient tokens to propose'' then AuthorizationError
      else if m = ''DAOTreasury: proposal not executed in governance'' then NotApproved
      else if m = ''DAOTreasury: insufficient available funds'' then InsufficientFunds
      else OtherError)"
| "errorClass (Custom m) =
     (if m = ''OwnableUnauthorizedAccount'' then AuthorizationError else OtherError)"
| "errorClass Panic = OtherError"
| "errorClass ForeignRevert = OtherError"
| "errorClass EmptyRevert = OtherError"

section \<open>VotingMechanisms.sol\<close>

text \<open>\<open>calculateQuadraticCost\<close>: two guards, then the checked product.\<close>

definition calculateQuadraticCost :: "uint256 \<Rightarrow> error + uint256" where
  "calculateQuadraticCost nvotes =
     (if \<not> nvotes > 0 then Inl (Revert ''VotingMechanisms: votes must be greater than 0'')
      else if \<not> nvotes \<le> MAX_UINT128 then Inl (Revert ''VotingMechanisms: votes too large'')
      else if nvotes * nvotes > MAX_UINT256 then Inl Panic
      else Inr (nvotes * nvotes))"

text \<open>\<open>validateVote\<close>: returns the pair \<open>(valid, cost)\<close>; the call into
  \<open>calculateQuadraticCost\<close> propagates its revert.\<close>

definition validateVote :: "uint256 \<Rightarrow> uint256 \<Rightarrow> uint256 \<Rightarrow> error + (bool \<times> uint256)" where
  "validateVote nvotes maxVotesPerWallet tokenBalance =
     (if nvotes = 0 then Inr (False, 0)
      else if nvotes > maxVotesPerWallet then Inr (False, 0)
      else (case calculateQuadraticCost nvotes of
              Inl e \<Rightarrow> Inl e
            | Inr cost \<Rightarrow> Inr (cost \<le> tokenBalance, cost)))"

section \<open>The governance token, as DAOGovernance sees it\<close>

text \<open>
  DAOGovernance reads \<open>getVotingPower\<close> and calls \<open>burnFrom\<close> on GovernanceToken.
  Both are in the sources; what they call (\<open>getVotes\<close>, \<open>allowance\<close>, \<open>_approve\<close>,
  \<open>_burn\<close>) is inherited from the OpenZeppelin ERC20 and ERC20Votes contracts. The
  token's state is the part of that storage these functions touch.
\<close>

record GovernanceToken =
  balanceOf :: "address \<Rightarrow> uint256"
  allowance :: "address \<Rightarrow> address \<Rightarrow> uint256"
  totalSupply :: uint256
  delegates :: "address \<Rightarrow> address"   \<comment> \<open>delegation inside the token (ERC20Votes)\<close>
  getVotes :: "address \<Rightarrow> uint256"      \<comment> \<open>latest checkpoint of each account's votes\<close>
  tokenPaused :: bool

definition getVotingPower :: "GovernanceToken \<Rightarrow> address \<Rightarrow> uint256" where
  "getVotingPower tok account = getVotes tok account"

text \<open>
  Modelled from the spec: the value ledger's debit. \<open>_approve\<close> and \<open>_burn\<close> are library
  code that is not among the sources; they are modelled as the ledger operation of the
  specification (\<open>debit(account, amount)\<close>, all or nothing), following the library: the
  allowance is set, a paused token refuses the update, the balance and the supply go down
  by the amount, and so do the votes of the account's delegate inside the token.
\<close>

definition approve_internal :: "address \<Rightarrow> address \<Rightarrow> uint256 \<Rightarrow> GovernanceToken \<Rightarrow> error + GovernanceToken" where
  "approve_internal ownr spender val tok =
     (if ownr = 0 then Inl (Custom ''ERC20InvalidApprover'')
      else if spender = 0 then Inl (Custom ''ERC20InvalidSpender'')
      else Inr (tok\<lparr>allowance := (allowance tok)(ownr := (allowance tok ownr)(spender := val))\<rparr>))"

definition burn_internal :: "address \<Rightarrow> uint256 \<Rightarrow> GovernanceToken \<Rightarrow> error + GovernanceToken" where
  "burn_internal account val tok =
     (if account = 0 then Inl (Custom ''ERC20InvalidSender'')
      else if tokenPaused tok then Inl (Custom ''EnforcedPause'')
      else if balanceOf tok account < val then Inl (Custom ''ERC20InsufficientBalance'')
      else if totalSupply tok < val then Inl Panic
      else
        (let d = delegates tok account in
         if d \<noteq> 0 \<and> val > 0 \<and> getVotes tok d < val then Inl Panic
         else Inr (tok\<lparr>balanceOf := (balanceOf tok)(account := balanceOf tok account - val),
                        totalSupply := totalSupply tok - val,
                        getVotes := (if d \<noteq> 0 \<and> val > 0
                                     then (getVotes tok)(d := getVotes tok d - val)
                                     else getVotes tok)\<rparr>)))"

text \<open>\<open>burnFrom(from, amount)\<close> of GovernanceToken.sol, called by \<open>caller\<close>.\<close>

definition burnFrom :: "address \<Rightarrow> address \<Rightarrow> uint256 \<Rightarrow> GovernanceToken \<Rightarrow> error + GovernanceToken" where
  "burnFrom caller from amount tok =
     (if \<not> amount > 0 then Inl (Revert ''GovernanceToken: burn amount must be greater than 0'')
      else if \<not> balanceOf tok from \<ge> amount
        then Inl (Revert ''GovernanceToken: burn amount exceeds balance'')
      else
        (let currentAllowance = allowance tok from caller in
         if \<not> currentAllowance \<ge> amount
           then Inl (Revert ''GovernanceToken: burn amount exceeds allowance'')
         else (case approve_internal from caller (currentAllowance - amount) tok of
                 Inl e \<Rightarrow> Inl e
               | Inr tok1 \<Rightarrow> burn_internal from amount tok1)))"

section \<open>DAOGovernance.sol\<close>

record Proposal =
  p_id :: uint256
  proposer :: address
  title :: string
  ipfsHash :: string
  startTime :: uint256
  endTime :: uint256
  totalVotes :: uint256
  totalVoters :: uint256
  executed :: bool
  cancelled :: bool
  votes :: "address \<Rightarrow> uint256"
  hasVoted :: "address \<Rightarrow> bool"

record VotingConfig =
  proposalThreshold :: uint256
  votingDelay :: uint256
  votingPeriod :: uint256
  quorumThreshold :: uint256
  maxVotesPerWallet :: uint256
  proposalCooldown :: uint256

text \<open>
  The contract's storage, with the owner and the pause flag of the inherited Ownable and
  Pausable, the contract's own address, and the state of the token contract that the
  immutable \<open>governanceToken\<close> refers to.
\<close>

record DAOGovernance =
  governanceToken :: GovernanceToken
  thisAddress :: address
  owner :: address
  paused :: bool
  votingConfig :: VotingConfig
  proposalCount :: uint256
  proposals :: "uint256 \<Rightarrow> Proposal"
  lastProposalTime :: "address \<Rightarrow> uint256"
  delegatedTo :: "address \<Rightarrow> address"
  delegatedVotes :: "address \<Rightarrow> uint256"
  treasuryBalance :: uint256
  treasuryManagers :: "address \<Rightarrow> bool"

text \<open>What a transaction brings with it.\<close>

record tx_env =
  msg_sender :: address
  msg_value :: uint256
  block_timestamp :: uint256
  transfer_ok :: bool   \<comment> \<open>whether an outgoing ether transfer of this call goes through\<close>

text \<open>Storage that was never written reads as zero.\<close>

definition emptyProposal :: Proposal where
  "emptyProposal =
     \<lparr>p_id = 0, proposer = 0, title = [], ipfsHash = [], startTime = 0, endTime = 0,
      totalVotes = 0, totalVoters = 0, executed = False, cancelled = False,
      votes = (\<lambda>_. 0), hasVoted = (\<lambda>_. False)\<rparr>"

definition defaultVotingConfig :: VotingConfig where
  "defaultVotingConfig =
     \<lparr>proposalThreshold = 1000 * 10 ^ 18,
      votingDelay = 86400,
      votingPeriod = 7 * 86400,
      quorumThreshold = 100000 * 10 ^ 18,
      maxVotesPerWallet = 10000,
      proposalCooldown = 86400\<rparr>"

text \<open>The constructor, deploying the contract at \<open>self\<close> for the token at \<open>tokenAddress\<close>.\<close>

definition constructor_governance ::
  "address \<Rightarrow> address \<Rightarrow> GovernanceToken \<Rightarrow> address \<Rightarrow> error + DAOGovernance" where
  "constructor_governance self tokenAddress tok initialOwner =
     (if initialOwner = 0 then Inl (Custom ''OwnableInvalidOwner'')
      else if \<not> tokenAddress \<noteq> 0
        then Inl (Revert ''DAOGovernance: governance token cannot be zero address'')
      else Inr \<lparr>governanceToken = tok, thisAddress = self, owner = initialOwner,
                paused = False, votingConfig = defaultVotingConfig, proposalCount = 0,
                proposals = (\<lambda>_. emptyProposal), lastProposalTime = (\<lambda>_. 0),
                delegatedTo = (\<lambda>_. 0), delegatedVotes = (\<lambda>_. 0),
                treasuryBalance = 0, treasuryManagers = (\<lambda>_. False)\<rparr>)"

subsection \<open>Modifiers\<close>

text \<open>A modifier either lets the call through (\<open>None\<close>) or reverts it.\<close>

definition onlyOwner :: "address \<Rightarrow> DAOGovernance \<Rightarrow> error option" where
  "onlyOwner sender s =
     (if owner s \<noteq> sender then Some (Custom ''OwnableUnauthorizedAccount'') else None)"

definition whenNotPaused :: "DAOGovernance \<Rightarrow> error option" where
  "whenNotPaused s = (if paused s then Some (Custom ''EnforcedPause'') else None)"

definition onlyTreasuryManager :: "address \<Rightarrow> DAOGovernance \<Rightarrow> error option" where
  "onlyTreasuryManager sender s =
     (if \<not> (treasuryManagers s sender \<or> sender = owner s)
      then Some (Revert ''DAOGovernance: not treasury manager'') else None)"

definition proposalExists :: "uint256 \<Rightarrow> DAOGovernance \<Rightarrow> error option" where
  "proposalExists proposalId s =
     (if \<not> (proposalId > 0 \<and> proposalId \<le> proposalCount s)
      then Some (Revert ''DAOGovernance: proposal does not exist'') else None)"

definition votingActive :: "uint256 \<Rightarrow> uint256 \<Rightarrow> DAOGovernance \<Rightarrow> error option" where
  "votingActive now proposalId s =
     (let proposal = proposals s proposalId in
      if \<not> now \<ge> startTime proposal then Some (Revert ''DAOGovernance: voting not started'')
      else if \<not> now \<le> endTime proposal then Some (Revert ''DAOGovernance: voting ended'')
      else if \<not> (\<not> executed proposal \<and> \<not> cancelled proposal)
        then Some (Revert ''DAOGovernance: proposal not active'')
      else None)"

text \<open>Running a function body behind a modifier.\<close>

definition modified :: "error option \<Rightarrow> (error + 'a) \<Rightarrow> error + 'a" where
  "modified m body = (case m of Some e \<Rightarrow> Inl e | None \<Rightarrow> body)"

subsection \<open>Proposals and votes\<close>

definition propose :: "tx_env \<Rightarrow> string \<Rightarrow> string \<Rightarrow> DAOGovernance \<Rightarrow> error + (uint256 \<times> DAOGovernance)" where
  "propose env ttl hash s =
     (modified (whenNotPaused s)
      (if \<not> length ttl > 0 then Inl (Revert ''DAOGovernance: title cannot be empty'')
      else if \<not> length hash > 0 then Inl (Revert ''DAOGovernance: IPFS hash cannot be empty'')
      else
        (let voterBalance = getVotingPower (governanceToken s) (msg_sender env) in
         if \<not> voterBalance \<ge> proposalThreshold (votingConfig s)
           then Inl (Revert ''DAOGovernance: insufficient tokens to propose'')
         else if lastProposalTime s (msg_sender env) + proposalCooldown (votingConfig s) > MAX_UINT256
           then Inl Panic
         else if \<not> block_timestamp env
                    \<ge> lastProposalTime s (msg_sender env) + proposalCooldown (votingConfig s)
           then Inl (Revert ''DAOGovernance: proposal cooldown not met'')
         else if proposalCount s + 1 > MAX_UINT256 then Inl Panic
         else
           (let proposalId = proposalCount s + 1 in
            if block_timestamp env + votingDelay (votingConfig s) > MAX_UINT256 then Inl Panic
            else
              (let start = block_timestamp env + votingDelay (votingConfig s) in
               if start + votingPeriod (votingConfig s) > MAX_UINT256 then Inl Panic
               else Inr (proposalId,
                 s\<lparr>proposalCount := proposalId,
                   proposals := (proposals s)(proposalId := (proposals s proposalId)
                      \<lparr>p_id := proposalId, proposer := msg_sender env, title := ttl,
                       ipfsHash := hash, startTime := start,
                       endTime := start + votingPeriod (votingConfig s)\<rparr>),
                   lastProposalTime := (lastProposalTime s)(msg_sender env := block_timestamp env)\<rparr>))))))"

text \<open>
  \<open>vote\<close>: the modifiers in the order of the source, the two argument checks, the
  has-voted check, the cost \<open>votes * votes\<close> scaled by \<open>10 ** 18\<close>, the power check
  against \<open>getVotingPower(msg.sender) + delegatedVotes[msg.sender]\<close>, the record of the
  vote, and at last the burn; a failing burn reverts the whole call.
\<close>

definition vote :: "tx_env \<Rightarrow> uint256 \<Rightarrow> uint256 \<Rightarrow> DAOGovernance \<Rightarrow> error + DAOGovernance" where
  "vote env proposalId nvotes s =
     (modified (proposalExists proposalId s)
      (modified (votingActive (block_timestamp env) proposalId s)
      (modified (whenNotPaused s)
      (if \<not> nvotes > 0 then Inl (Revert ''DAOGovernance: votes must be greater than 0'')
      else if \<not> nvotes \<le> maxVotesPerWallet (votingConfig s)
        then Inl (Revert ''DAOGovernance: exceeds max votes per wallet'')
      else
        (let proposal = proposals s proposalId in
         if \<not> \<not> hasVoted proposal (msg_sender env)
           then Inl (Revert ''DAOGovernance: already voted'')
         else if nvotes * nvotes > MAX_UINT256 then Inl Panic
         else
           (let voteCost = nvotes * nvotes in
            if voteCost * 10 ^ 18 > MAX_UINT256 then Inl Panic
            else
              (let tokensCost = voteCost * 10 ^ 18 in
               if getVotingPower (governanceToken s) (msg_sender env)
                    + delegatedVotes s (msg_sender env) > MAX_UINT256 then Inl Panic
               else
                 (let availableVotes = getVotingPower (governanceToken s) (msg_sender env)
                                         + delegatedVotes s (msg_sender env) in
                  if \<not> availableVotes \<ge> tokensCost
                    then Inl (Revert ''DAOGovernance: insufficient voting power'')
                  else if totalVotes proposal + nvotes > MAX_UINT256 then Inl Panic
                  else if totalVoters proposal + 1 > MAX_UINT256 then Inl Panic
                  else
                    (case burnFrom (thisAddress s) (msg_sender env) tokensCost (governanceToken s) of
                       Inl e \<Rightarrow> Inl e
                     | Inr tok \<Rightarrow>
                         Inr (s\<lparr>governanceToken := tok,
                                proposals := (proposals s)(proposalId := proposal
                                  \<lparr>totalVotes := totalVotes proposal + nvotes,
                                   totalVoters := totalVoters proposal + 1,
                                   votes := (votes proposal)(msg_sender env := nvotes),
                                   hasVoted := (hasVoted proposal)(msg_sender env := True)\<rparr>)\<rparr>))))))))))"

text \<open>The quantity the power check of \<open>vote\<close> compares with the cost (line 196).\<close>

definition availableVotes :: "DAOGovernance \<Rightarrow> address \<Rightarrow> uint256" where
  "availableVotes s account = getVotingPower (governanceToken s) account + delegatedVotes s account"

subsection \<open>Delegation\<close>

definition delegateVotes :: "tx_env \<Rightarrow> address \<Rightarrow> DAOGovernance \<Rightarrow> error + DAOGovernance" where
  "delegateVotes env delegatee s =
     (modified (whenNotPaused s)
      (if \<not> delegatee \<noteq> 0 then Inl (Revert ''DAOGovernance: cannot delegate to zero address'')
      else if \<not> delegatee \<noteq> msg_sender env
        then Inl (Revert ''DAOGovernance: cannot delegate to self'')
      else
        (let currentDelegate = delegatedTo s (msg_sender env);
             voterBalance = getVotingPower (governanceToken s) (msg_sender env) in
         if currentDelegate \<noteq> 0 \<and> delegatedVotes s currentDelegate < voterBalance then Inl Panic
         else
           (let dv1 = (if currentDelegate \<noteq> 0
                       then (delegatedVotes s)(currentDelegate := delegatedVotes s currentDelegate - voterBalance)
                       else delegatedVotes s) in
            if dv1 delegatee + voterBalance > MAX_UINT256 then Inl Panic
            else Inr (s\<lparr>delegatedTo := (delegatedTo s)(msg_sender env := delegatee),
                        delegatedVotes := dv1(delegatee := dv1 delegatee + voterBalance)\<rparr>)))))"

definition revokeDelegation :: "tx_env \<Rightarrow> DAOGovernance \<Rightarrow> error + DAOGovernance" where
  "revokeDelegation env s =
     (modified (whenNotPaused s)
      ((let currentDelegate = delegatedTo s (msg_sender env) in
       if \<not> currentDelegate \<noteq> 0 then Inl (Revert ''DAOGovernance: no active delegation'')
       else
         (let voterBalance = getVotingPower (governanceToken s) (msg_sender env) in
          if delegatedVotes s currentDelegate < voterBalance then Inl Panic
          else Inr (s\<lparr>delegatedVotes := (delegatedVotes s)
                          (currentDelegate := delegatedVotes s currentDelegate - voterBalance),
                      delegatedTo := (delegatedTo s)(msg_sender env := 0)\<rparr>)))))"

subsection \<open>Finalising and cancelling\<close>

definition executeProposal :: "tx_env \<Rightarrow> uint256 \<Rightarrow> DAOGovernance \<Rightarrow> error + DAOGovernance" where
  "executeProposal env proposalId s =
     (modified (proposalExists proposalId s)
      (modified (onlyOwner (msg_sender env) s)
      ((let proposal = proposals s proposalId in
       if \<not> block_timestamp env > endTime proposal
         then Inl (Revert ''DAOGovernance: voting still active'')
       else if \<not> \<not> executed proposal then Inl (Revert ''DAOGovernance: proposal already executed'')
       else if \<not> \<not> cancelled proposal then Inl (Revert ''DAOGovernance: proposal cancelled'')
       else if \<not> totalVotes proposal \<ge> quorumThreshold (votingConfig s)
         then Inl (Revert ''DAOGovernance: quorum not met'')
       else Inr (s\<lparr>proposals := (proposals s)(proposalId := proposal\<lparr>executed := True\<rparr>)\<rparr>)))))"

definition cancelProposal :: "tx_env \<Rightarrow> uint256 \<Rightarrow> DAOGovernance \<Rightarrow> error + DAOGovernance" where
  "cancelProposal env proposalId s =
     (modified (proposalExists proposalId s)
      ((let proposal = proposals s proposalId in
       if \<not> (msg_sender env = proposer proposal \<or> msg_sender env = owner s)
         then Inl (Revert ''DAOGovernance: only proposer or owner can cancel'')
       else if \<not> \<not> executed proposal
         then Inl (Revert ''DAOGovernance: cannot cancel executed proposal'')
       else if \<not> \<not> cancelled proposal
         then Inl (Revert ''DAOGovernance: proposal already cancelled'')
       else Inr (s\<lparr>proposals := (proposals s)(proposalId := proposal\<lparr>cancelled := True\<rparr>)\<rparr>))))"

subsection \<open>Treasury of the governance contract, configuration, pause, ownership\<close>

definition addTreasuryManager :: "tx_env \<Rightarrow> address \<Rightarrow> DAOGovernance \<Rightarrow> error + DAOGovernance" where
  "addTreasuryManager env manager s =
     (modified (onlyOwner (msg_sender env) s)
      (if \<not> manager \<noteq> 0 then Inl (Revert ''DAOGovernance: manager cannot be zero address'')
      else Inr (s\<lparr>treasuryManagers := (treasuryManagers s)(manager := True)\<rparr>)))"

definition removeTreasuryManager :: "tx_env \<Rightarrow> address \<Rightarrow> DAOGovernance \<Rightarrow> error + DAOGovernance" where
  "removeTreasuryManager env manager s =
     (modified (onlyOwner (msg_sender env) s)
      (Inr (s\<lparr>treasuryManagers := (treasuryManagers s)(manager := False)\<rparr>)))"

definition depositToTreasury :: "tx_env \<Rightarrow> DAOGovernance \<Rightarrow> error + DAOGovernance" where
  "depositToTreasury env s =
     (if \<not> msg_value env > 0
        then Inl (Revert ''DAOGovernance: deposit amount must be greater than 0'')
      else if treasuryBalance s + msg_value env > MAX_UINT256 then Inl Panic
      else Inr (s\<lparr>treasuryBalance := treasuryBalance s + msg_value env\<rparr>))"

definition withdrawFromTreasury :: "tx_env \<Rightarrow> address \<Rightarrow> uint256 \<Rightarrow> DAOGovernance \<Rightarrow> error + DAOGovernance" where
  "withdrawFromTreasury env to amount s =
     (modified (onlyTreasuryManager (msg_sender env) s)
      (if \<not> to \<noteq> 0 then Inl (Revert ''DAOGovernance: cannot withdraw to zero address'')
      else if \<not> amount > 0
        then Inl (Revert ''DAOGovernance: withdrawal amount must be greater than 0'')
      else if \<not> amount \<le> treasuryBalance s
        then Inl (Revert ''DAOGovernance: insufficient treasury balance'')
      else if \<not> transfer_ok env then Inl EmptyRevert
      else Inr (s\<lparr>treasuryBalance := treasuryBalance s - amount\<rparr>)))"

definition receive_governance :: "tx_env \<Rightarrow> DAOGovernance \<Rightarrow> error + DAOGovernance" where
  "receive_governance env s =
     (if treasuryBalance s + msg_value env > MAX_UINT256 then Inl Panic
      else Inr (s\<lparr>treasuryBalance := treasuryBalance s + msg_value env\<rparr>))"

definition updateVotingConfig :: "tx_env \<Rightarrow> VotingConfig \<Rightarrow> DAOGovernance \<Rightarrow> error + DAOGovernance" where
  "updateVotingConfig env cfg s =
     (modified (onlyOwner (msg_sender env) s)
      (Inr (s\<lparr>votingConfig := (votingConfig s)
              \<lparr>proposalThreshold := proposalThreshold cfg,
               votingDelay := votingDelay cfg,
               votingPeriod := votingPeriod cfg,
               quorumThreshold := quorumThreshold cfg,
               maxVotesPerWallet := maxVotesPerWallet cfg,
               proposalCooldown := proposalCooldown cfg\<rparr>\<rparr>)))"

definition pause :: "tx_env \<Rightarrow> DAOGovernance \<Rightarrow> error + DAOGovernance" where
  "pause env s =
     (modified (onlyOwner (msg_sender env) s)
      (modified (whenNotPaused s)
      (Inr (s\<lparr>paused := True\<rparr>))))"

definition unpause :: "tx_env \<Rightarrow> DAOGovernance \<Rightarrow> error + DAOGovernance" where
  "unpause env s =
     (modified (onlyOwner (msg_sender env) s)
      (if \<not> paused s then Inl (Custom ''ExpectedPause'')
      else Inr (s\<lparr>paused := False\<rparr>)))"

definition transferOwnership :: "tx_env \<Rightarrow> address \<Rightarrow> DAOGovernance \<Rightarrow> error + DAOGovernance" where
  "transferOwnership env newOwner s =
     (modified (onlyOwner (msg_sender env) s)
      (if newOwner = 0 then Inl (Custom ''OwnableInvalidOwner'')
      else Inr (s\<lparr>owner := newOwner\<rparr>)))"

definition renounceOwnership :: "tx_env \<Rightarrow> DAOGovernance \<Rightarrow> error + DAOGovernance" where
  "renounceOwnership env s =
     (modified (onlyOwner (msg_sender env) s)
      (Inr (s\<lparr>owner := 0\<rparr>)))"

subsection \<open>Sequences of transactions\<close>

text \<open>
  Every state-changing entry point of the contract, and \<open>TokenActivity\<close> for whatever
  happens on the token contract between two calls (transfers, mints, approvals,
  delegations inside the token): it replaces the token's state by any other.
\<close>

datatype gov_call =
    Propose string string
  | Vote uint256 uint256
  | DelegateVotes address
  | RevokeDelegation
  | ExecuteProposal uint256
  | CancelProposal uint256
  | AddTreasuryManager address
  | RemoveTreasuryManager address
  | DepositToTreasury
  | WithdrawFromTreasury address uint256
  | UpdateVotingConfig VotingConfig
  | Pause
  | Unpause
  | TransferOwnership address
  | RenounceOwnership
  | ReceiveEther
  | TokenActivity GovernanceToken

fun gov_apply :: "tx_env \<Rightarrow> gov_call \<Rightarrow> DAOGovernance \<Rightarrow> error + DAOGovernance" where
  "gov_apply env (Propose ttl hash) s = map_sum id snd (propose env ttl hash s)"
| "gov_apply env (Vote proposalId nvotes) s = vote env proposalId nvotes s"
| "gov_apply env (DelegateVotes delegatee) s = delegateVotes env delegatee s"
| "gov_apply env RevokeDelegation s = revokeDelegation env s"
| "gov_apply env (ExecuteProposal proposalId) s = executeProposal env proposalId s"
| "gov_apply env (CancelProposal proposalId) s = cancelProposal env proposalId s"
| "gov_apply env (AddTreasuryManager manager) s = addTreasuryManager env manager s"
| "gov_apply env (RemoveTreasuryManager manager) s = removeTreasuryManager env manager s"
| "gov_apply env DepositToTreasury s = depositToTreasury env s"
| "gov_apply env (WithdrawFromTreasury to amount) s = withdrawFromTreasury env to amount s"
| "gov_apply env (UpdateVotingConfig cfg) s = updateVotingConfig env cfg s"
| "gov_apply env Pause s = pause env s"
| "gov_apply env Unpause s = unpause env s"
| "gov_apply env (TransferOwnership newOwner) s = transferOwnership env newOwner s"
| "gov_apply env RenounceOwnership s = renounceOwnership env s"
| "gov_apply env ReceiveEther s = receive_governance env s"
| "gov_apply env (TokenActivity tok) s = Inr (s\<lparr>governanceToken := tok\<rparr>)"

text \<open>A transaction that reverts leaves the state as it was.\<close>

definition gov_step :: "DAOGovernance \<Rightarrow> tx_env \<times> gov_call \<Rightarrow> DAOGovernance" where
  "gov_step s tx = (case gov_apply (fst tx) (snd tx) s of Inl e \<Rightarrow> s | Inr s' \<Rightarrow> s')"

definition gov_run :: "(tx_env \<times> gov_call) list \<Rightarrow> DAOGovernance \<Rightarrow> DAOGovernance" where
  "gov_run txs s = foldl gov_step s txs"

section \<open>DAOTreasury.sol\<close>

record TokenBalance =
  tb_token :: address      \<comment> \<open>\<open>token\<close>; \<open>address(0)\<close> for ether\<close>
  balance :: uint256
  allocated :: uint256
  available :: uint256

record ProposalExecution =
  pe_proposalId :: uint256
  recipient :: address
  pe_token :: address
  amount :: uint256
  data :: "8 word list"
  pe_executed :: bool      \<comment> \<open>\<open>executed\<close>\<close>
  executionTime :: uint256

record BudgetAllocation =
  category :: string
  ba_token :: address
  totalBudget :: uint256
  spentAmount :: uint256
  remainingBudget :: uint256
  active :: bool

record DAOTreasury =
  daoGovernance :: address
  treasuryOwner :: address                          \<comment> \<open>\<open>owner()\<close> of Ownable\<close>
  tokenBalances :: "address \<Rightarrow> TokenBalance"
  supportedTokens :: "address list"
  proposalExecutions :: "uint256 \<Rightarrow> ProposalExecution"
  budgetAllocations :: "string \<Rightarrow> BudgetAllocation"
  budgetCategories :: "string list"
  managers :: "address \<Rightarrow> bool"                   \<comment> \<open>\<open>treasuryManagers\<close>\<close>
  emergencyManagers :: "address \<Rightarrow> bool"
  totalProposalExecutions :: uint256
  emergencyMode :: bool

text \<open>
  What a call into the treasury meets outside the treasury: the transaction, the state of
  the governance contract at that moment, the ether the treasury holds, and what the
  ERC20 token does when asked to move funds (it reverts, or it returns and the treasury's
  token balance reads as given before and after). An ether transfer goes through or not
  (\<open>transfer_ok\<close>). External calls are taken by their outcome only.
\<close>

datatype erc20_outcome = Erc20Reverts | Erc20Returns uint256 uint256

record treasury_env = tx_env +
  governance :: DAOGovernance
  this_balance :: uint256
  erc20 :: erc20_outcome

definition emptyTokenBalance :: TokenBalance where
  "emptyTokenBalance = \<lparr>tb_token = 0, balance = 0, allocated = 0, available = 0\<rparr>"

definition emptyExecution :: ProposalExecution where
  "emptyExecution = \<lparr>pe_proposalId = 0, recipient = 0, pe_token = 0, amount = 0, data = [],
                      pe_executed = False, executionTime = 0\<rparr>"

definition emptyBudget :: BudgetAllocation where
  "emptyBudget = \<lparr>category = [], ba_token = 0, totalBudget = 0, spentAmount = 0,
                   remainingBudget = 0, active = False\<rparr>"

definition constructor_treasury :: "address \<Rightarrow> address \<Rightarrow> error + DAOTreasury" where
  "constructor_treasury dao initialOwner =
     (if initialOwner = 0 then Inl (Custom ''OwnableInvalidOwner'')
      else if \<not> dao \<noteq> 0
        then Inl (Revert ''DAOTreasury: DAO governance cannot be zero address'')
      else Inr \<lparr>daoGovernance = dao, treasuryOwner = initialOwner,
                tokenBalances = (\<lambda>_. emptyTokenBalance)
                  (0 := \<lparr>tb_token = 0, balance = 0, allocated = 0, available = 0\<rparr>),
                supportedTokens = [0],
                proposalExecutions = (\<lambda>_. emptyExecution),
                budgetAllocations = (\<lambda>_. emptyBudget),
                budgetCategories = [],
                managers = (\<lambda>_. False), emergencyManagers = (\<lambda>_. False),
                totalProposalExecutions = 0, emergencyMode = False\<rparr>)"

subsection \<open>Modifiers of the treasury\<close>

definition onlyDAO :: "address \<Rightarrow> DAOTreasury \<Rightarrow> error option" where
  "onlyDAO sender s =
     (if \<not> sender = daoGovernance s then Some (Revert ''DAOTreasury: only DAO can call'') else None)"

definition onlyManager :: "address \<Rightarrow> DAOTreasury \<Rightarrow> error option" where
  "onlyManager sender s =
     (if \<not> (managers s sender \<or> sender = treasuryOwner s)
      then Some (Revert ''DAOTreasury: not treasury manager'') else None)"

definition onlyEmergencyManager :: "address \<Rightarrow> DAOTreasury \<Rightarrow> error option" where
  "onlyEmergencyManager sender s =
     (if \<not> (emergencyManagers s sender \<or> sender = treasuryOwner s)
      then Some (Revert ''DAOTreasury: not emergency manager'') else None)"

definition notInEmergency :: "DAOTreasury \<Rightarrow> error option" where
  "notInEmergency s =
     (if \<not> \<not> emergencyMode s then Some (Revert ''DAOTreasury: emergency mode active'') else None)"

definition onlyTreasuryOwner :: "address \<Rightarrow> DAOTreasury \<Rightarrow> error option" where
  "onlyTreasuryOwner sender s =
     (if treasuryOwner s \<noteq> sender then Some (Custom ''OwnableUnauthorizedAccount'') else None)"

subsection \<open>Deposits\<close>

definition addSupportedToken :: "treasury_env \<Rightarrow> address \<Rightarrow> DAOTreasury \<Rightarrow> error + DAOTreasury" where
  "addSupportedToken env token s =
     (modified (onlyTreasuryOwner (msg_sender env) s)
      (if \<not> token \<noteq> 0 then Inl (Revert ''DAOTreasury: token cannot be zero address'')
       else if \<not> tb_token (tokenBalances s token) = 0
         then Inl (Revert ''DAOTreasury: token already supported'')
       else Inr (s\<lparr>tokenBalances := (tokenBalances s)
                     (token := \<lparr>tb_token = token, balance = 0, allocated = 0, available = 0\<rparr>),
                   supportedTokens := supportedTokens s @ [token]\<rparr>)))"

text \<open>The body shared by \<open>depositETH\<close>, \<open>depositToken\<close> and \<open>receive\<close>: two checked additions.\<close>

definition credit :: "address \<Rightarrow> uint256 \<Rightarrow> DAOTreasury \<Rightarrow> error + DAOTreasury" where
  "credit token val s =
     (let tokenBalance = tokenBalances s token in
      if balance tokenBalance + val > MAX_UINT256 then Inl Panic
      else if available tokenBalance + val > MAX_UINT256 then Inl Panic
      else Inr (s\<lparr>tokenBalances := (tokenBalances s)
                    (token := tokenBalance\<lparr>balance := balance tokenBalance + val,
                                            available := available tokenBalance + val\<rparr>)\<rparr>))"

definition depositETH :: "treasury_env \<Rightarrow> DAOTreasury \<Rightarrow> error + DAOTreasury" where
  "depositETH env s =
     (modified (notInEmergency s)
      (if \<not> msg_value env > 0
         then Inl (Revert ''DAOTreasury: deposit amount must be greater than 0'')
       else credit 0 (msg_value env) s))"

definition depositToken :: "treasury_env \<Rightarrow> address \<Rightarrow> uint256 \<Rightarrow> DAOTreasury \<Rightarrow> error + DAOTreasury" where
  "depositToken env token amt s =
     (modified (notInEmergency s)
      (if \<not> token \<noteq> 0 then Inl (Revert ''DAOTreasury: token cannot be zero address'')
       else if \<not> amt > 0
         then Inl (Revert ''DAOTreasury: deposit amount must be greater than 0'')
       else if \<not> tb_token (tokenBalances s token) \<noteq> 0
         then Inl (Revert ''DAOTreasury: token not supported'')
       else (case erc20 env of
               Erc20Reverts \<Rightarrow> Inl ForeignRevert
             | Erc20Returns balanceBefore balanceAfter \<Rightarrow> credit token amt s)))"

definition receive_treasury :: "treasury_env \<Rightarrow> DAOTreasury \<Rightarrow> error + DAOTreasury" where
  "receive_treasury env s =
     (if \<not> msg_value env > 0
        then Inl (Revert ''DAOTreasury: deposit amount must be greater than 0'')
      else if \<not> \<not> emergencyMode s then Inl (Revert ''DAOTreasury: emergency mode active'')
      else credit 0 (msg_value env) s)"

subsection \<open>Scheduling and executing a proposal's transfer\<close>

definition scheduleProposalExecution ::
  "treasury_env \<Rightarrow> uint256 \<Rightarrow> address \<Rightarrow> address \<Rightarrow> uint256 \<Rightarrow> 8 word list \<Rightarrow> DAOTreasury
     \<Rightarrow> error + DAOTreasury" where
  "scheduleProposalExecution env proposalId rcpt token amt dat s =
     (modified (onlyDAO (msg_sender env) s)
      (modified (notInEmergency s)
      (if \<not> rcpt \<noteq> 0 then Inl (Revert ''DAOTreasury: recipient cannot be zero address'')
       else if \<not> amt > 0 then Inl (Revert ''DAOTreasury: amount must be greater than 0'')
       else if \<not> (tb_token (tokenBalances s token) \<noteq> 0 \<or> token = 0)
         then Inl (Revert ''DAOTreasury: token not supported'')
       else
         (let tokenBalance = tokenBalances s token in
          if \<not> available tokenBalance \<ge> amt
            then Inl (Revert ''DAOTreasury: insufficient available funds'')
          else if allocated tokenBalance + amt > MAX_UINT256 then Inl Panic
          else if totalProposalExecutions s + 1 > MAX_UINT256 then Inl Panic
          else Inr (s\<lparr>tokenBalances := (tokenBalances s)
                         (token := tokenBalance\<lparr>allocated := allocated tokenBalance + amt,
                                                 available := available tokenBalance - amt\<rparr>),
                      totalProposalExecutions := totalProposalExecutions s + 1,
                      proposalExecutions := (proposalExecutions s)
                         (totalProposalExecutions s + 1 :=
                            \<lparr>pe_proposalId = proposalId, recipient = rcpt, pe_token = token,
                             amount = amt, data = dat, pe_executed = False,
                             executionTime = 0\<rparr>)\<rparr>)))))"

text \<open>
  \<open>daoGovernance.getProposal(id)\<close>, as far as the treasury reads it: the \<open>executed\<close> flag,
  behind the \<open>proposalExists\<close> modifier of the governance contract.
\<close>

definition getProposal_executed :: "DAOGovernance \<Rightarrow> uint256 \<Rightarrow> error + bool" where
  "getProposal_executed g proposalId =
     modified (proposalExists proposalId g) (Inr (executed (proposals g proposalId)))"

text \<open>
  \<open>executeProposal\<close> of the treasury. The flag \<open>success\<close> that the function emits in its
  event is returned with the state. A transfer that did not succeed takes the
  compensating branch; a reverting ERC20 transfer reverts the call. \<open>transferOut\<close> is
  the transfer of lines 230 to 241 with its flag \<open>success\<close>.
\<close>

definition transferOut :: "treasury_env \<Rightarrow> ProposalExecution \<Rightarrow> error + bool" where
  "transferOut env execution =
     (if pe_token execution = 0 then Inr (transfer_ok env)
      else (case erc20 env of
              Erc20Reverts \<Rightarrow> Inl ForeignRevert
            | Erc20Returns balanceBefore balanceAfter \<Rightarrow>
                if balanceBefore < balanceAfter then Inl Panic
                else Inr (balanceBefore - balanceAfter = amount execution)))"

definition treasury_executeProposal ::
  "treasury_env \<Rightarrow> uint256 \<Rightarrow> DAOTreasury \<Rightarrow> error + (bool \<times> DAOTreasury)" where
  "treasury_executeProposal env executionId s =
     (modified (onlyManager (msg_sender env) s)
      (modified (notInEmergency s)
      (if \<not> (executionId > 0 \<and> executionId \<le> totalProposalExecutions s)
         then Inl (Revert ''DAOTreasury: invalid execution ID'')
       else
         (let execution = proposalExecutions s executionId in
          if \<not> \<not> pe_executed execution then Inl (Revert ''DAOTreasury: already executed'')
          else
            (case getProposal_executed (governance env) (pe_proposalId execution) of
               Inl e \<Rightarrow> Inl e
             | Inr proposalExecuted \<Rightarrow>
                 if \<not> proposalExecuted
                   then Inl (Revert ''DAOTreasury: proposal not executed in governance'')
                 else
                   (let execution1 = execution\<lparr>pe_executed := True,
                                                executionTime := block_timestamp env\<rparr>;
                        tokenBalance = tokenBalances s (pe_token execution) in
                    if balance tokenBalance < amount execution then Inl Panic
                    else if allocated tokenBalance < amount execution then Inl Panic
                    else
                      (let tokenBalance1 = tokenBalance
                             \<lparr>balance := balance tokenBalance - amount execution,
                              allocated := allocated tokenBalance - amount execution\<rparr> in
                       (case transferOut env execution of
                          Inl e \<Rightarrow> Inl e
                        | Inr success \<Rightarrow>
                            if \<not> success then
                              (if balance tokenBalance1 + amount execution > MAX_UINT256
                                 then Inl Panic
                               else if allocated tokenBalance1 + amount execution > MAX_UINT256
                                 then Inl Panic
                               else Inr (success,
                                 s\<lparr>proposalExecutions := (proposalExecutions s)
                                      (executionId := execution1\<lparr>pe_executed := False,
                                                                 executionTime := 0\<rparr>),
                                   tokenBalances := (tokenBalances s)
                                      (pe_token execution := tokenBalance1
                                         \<lparr>balance := balance tokenBalance1 + amount execution,
                                          allocated := allocated tokenBalance1 + amount execution\<rparr>)\<rparr>))
                            else Inr (success,
                                 s\<lparr>proposalExecutions := (proposalExecutions s)
                                      (executionId := execution1),
                                   tokenBalances := (tokenBalances s)
                                      (pe_token execution := tokenBalance1)\<rparr>)))))))))"

subsection \<open>Budgets\<close>

definition createBudgetAllocation ::
  "treasury_env \<Rightarrow> string \<Rightarrow> address \<Rightarrow> uint256 \<Rightarrow> DAOTreasury \<Rightarrow> error + DAOTreasury" where
  "createBudgetAllocation env cat token amt s =
     (modified (onlyManager (msg_sender env) s)
      (modified (notInEmergency s)
      (if \<not> length cat > 0 then Inl (Revert ''DAOTreasury: category cannot be empty'')
       else if \<not> amt > 0 then Inl (Revert ''DAOTreasury: budget amount must be greater than 0'')
       else if \<not> (tb_token (tokenBalances s token) \<noteq> 0 \<or> token = 0)
         then Inl (Revert ''DAOTreasury: token not supported'')
       else if \<not> \<not> active (budgetAllocations s cat)
         then Inl (Revert ''DAOTreasury: budget category already exists'')
       else
         (let tokenBalance = tokenBalances s token in
          if \<not> available tokenBalance \<ge> amt
            then Inl (Revert ''DAOTreasury: insufficient available funds'')
          else if allocated tokenBalance + amt > MAX_UINT256 then Inl Panic
          else Inr (s\<lparr>tokenBalances := (tokenBalances s)
                         (token := tokenBalance\<lparr>allocated := allocated tokenBalance + amt,
                                                 available := available tokenBalance - amt\<rparr>),
                      budgetAllocations := (budgetAllocations s)
                         (cat := \<lparr>category = cat, ba_token = token, totalBudget = amt,
                                  spentAmount = 0, remainingBudget = amt, active = True\<rparr>),
                      budgetCategories := budgetCategories s @ [cat]\<rparr>)))))"

definition spendFromBudget ::
  "treasury_env \<Rightarrow> string \<Rightarrow> address \<Rightarrow> uint256 \<Rightarrow> DAOTreasury \<Rightarrow> error + DAOTreasury" where
  "spendFromBudget env cat rcpt amt s =
     (modified (onlyManager (msg_sender env) s)
      (modified (notInEmergency s)
      (if \<not> rcpt \<noteq> 0 then Inl (Revert ''DAOTreasury: recipient cannot be zero address'')
       else if \<not> amt > 0 then Inl (Revert ''DAOTreasury: spend amount must be greater than 0'')
       else
         (let budget = budgetAllocations s cat in
          if \<not> active budget then Inl (Revert ''DAOTreasury: budget category not active'')
          else if \<not> remainingBudget budget \<ge> amt
            then Inl (Revert ''DAOTreasury: insufficient budget remaining'')
          else if spentAmount budget + amt > MAX_UINT256 then Inl Panic
          else
            (let tokenBalance = tokenBalances s (ba_token budget) in
             if balance tokenBalance < amt then Inl Panic
             else if allocated tokenBalance < amt then Inl Panic
             else if ba_token budget = 0 \<and> \<not> transfer_ok env
               then Inl (Revert ''DAOTreasury: ETH transfer failed'')
             else if ba_token budget \<noteq> 0 \<and> erc20 env = Erc20Reverts
               then Inl ForeignRevert
             else Inr (s\<lparr>budgetAllocations := (budgetAllocations s)
                            (cat := budget\<lparr>spentAmount := spentAmount budget + amt,
                                            remainingBudget := remainingBudget budget - amt\<rparr>),
                         tokenBalances := (tokenBalances s)
                            (ba_token budget := tokenBalance
                               \<lparr>balance := balance tokenBalance - amt,
                                allocated := allocated tokenBalance - amt\<rparr>)\<rparr>))))))"

subsection \<open>Managers, emergency mode, ownership\<close>

definition treasury_addTreasuryManager :: "treasury_env \<Rightarrow> address \<Rightarrow> DAOTreasury \<Rightarrow> error + DAOTreasury" where
  "treasury_addTreasuryManager env manager s =
     (modified (onlyTreasuryOwner (msg_sender env) s)
      (if \<not> manager \<noteq> 0 then Inl (Revert ''DAOTreasury: manager cannot be zero address'')
       else Inr (s\<lparr>managers := (managers s)(manager := True)\<rparr>)))"

definition treasury_removeTreasuryManager :: "treasury_env \<Rightarrow> address \<Rightarrow> DAOTreasury \<Rightarrow> error + DAOTreasury" where
  "treasury_removeTreasuryManager env manager s =
     (modified (onlyTreasuryOwner (msg_sender env) s)
      (Inr (s\<lparr>managers := (managers s)(manager := False)\<rparr>)))"

definition addEmergencyManager :: "treasury_env \<Rightarrow> address \<Rightarrow> DAOTreasury \<Rightarrow> error + DAOTreasury" where
  "addEmergencyManager env manager s =
     (modified (onlyTreasuryOwner (msg_sender env) s)
      (if \<not> manager \<noteq> 0 then Inl (Revert ''DAOTreasury: manager cannot be zero address'')
       else Inr (s\<lparr>emergencyManagers := (emergencyManagers s)(manager := True)\<rparr>)))"

definition removeEmergencyManager :: "treasury_env \<Rightarrow> address \<Rightarrow> DAOTreasury \<Rightarrow> error + DAOTreasury" where
  "removeEmergencyManager env manager s =
     (modified (onlyTreasuryOwner (msg_sender env) s)
      (Inr (s\<lparr>emergencyManagers := (emergencyManagers s)(manager := False)\<rparr>)))"

definition toggleEmergencyMode :: "treasury_env \<Rightarrow> DAOTreasury \<Rightarrow> error + DAOTreasury" where
  "toggleEmergencyMode env s =
     (modified (onlyEmergencyManager (msg_sender env) s)
      (Inr (s\<lparr>emergencyMode := \<not> emergencyMode s\<rparr>)))"

text \<open>\<open>emergencyWithdraw\<close> moves funds out and writes nothing to the treasury's storage.\<close>

definition emergencyWithdraw ::
  "treasury_env \<Rightarrow> address \<Rightarrow> address \<Rightarrow> uint256 \<Rightarrow> DAOTreasury \<Rightarrow> error + DAOTreasury" where
  "emergencyWithdraw env token to amt s =
     (modified (onlyEmergencyManager (msg_sender env) s)
      (if \<not> emergencyMode s then Inl (Revert ''DAOTreasury: not in emergency mode'')
       else if \<not> to \<noteq> 0 then Inl (Revert ''DAOTreasury: recipient cannot be zero address'')
       else if \<not> amt > 0 then Inl (Revert ''DAOTreasury: amount must be greater than 0'')
       else if token = 0 then
         (if \<not> this_balance env \<ge> amt then Inl (Revert ''DAOTreasury: insufficient ETH balance'')
          else if \<not> transfer_ok env then Inl EmptyRevert
          else Inr s)
       else if erc20 env = Erc20Reverts then Inl ForeignRevert
       else Inr s))"

definition treasury_transferOwnership :: "treasury_env \<Rightarrow> address \<Rightarrow> DAOTreasury \<Rightarrow> error + DAOTreasury" where
  "treasury_transferOwnership env newOwner s =
     (modified (onlyTreasuryOwner (msg_sender env) s)
      (if newOwner = 0 then Inl (Custom ''OwnableInvalidOwner'')
       else Inr (s\<lparr>treasuryOwner := newOwner\<rparr>)))"

definition treasury_renounceOwnership :: "treasury_env \<Rightarrow> DAOTreasury \<Rightarrow> error + DAOTreasury" where
  "treasury_renounceOwnership env s =
     (modified (onlyTreasuryOwner (msg_sender env) s)
      (Inr (s\<lparr>treasuryOwner := 0\<rparr>)))"

subsection \<open>Sequences of treasury transactions\<close>

datatype treasury_call =
    AddSupportedToken address
  | DepositETH
  | DepositToken address uint256
  | ScheduleProposalExecution uint256 address address uint256 "8 word list"
  | TreasuryExecuteProposal uint256
  | CreateBudgetAllocation string address uint256
  | SpendFromBudget string address uint256
  | TreasuryAddManager address
  | TreasuryRemoveManager address
  | AddEmergencyManager address
  | RemoveEmergencyManager address
  | ToggleEmergencyMode
  | EmergencyWithdraw address address uint256
  | TreasuryTransferOwnership address
  | TreasuryRenounceOwnership
  | TreasuryReceive

fun treasury_apply :: "treasury_env \<Rightarrow> treasury_call \<Rightarrow> DAOTreasury \<Rightarrow> error + DAOTreasury" where
  "treasury_apply env (AddSupportedToken token) s = addSupportedToken env token s"
| "treasury_apply env DepositETH s = depositETH env s"
| "treasury_apply env (DepositToken token amt) s = depositToken env token amt s"
| "treasury_apply env (ScheduleProposalExecution proposalId rcpt token amt dat) s =
     scheduleProposalExecution env proposalId rcpt token amt dat s"
| "treasury_apply env (TreasuryExecuteProposal executionId) s =
     map_sum id snd (treasury_executeProposal env executionId s)"
| "treasury_apply env (CreateBudgetAllocation cat token amt) s =
     createBudgetAllocation env cat token amt s"
| "treasury_apply env (SpendFromBudget cat rcpt amt) s = spendFromBudget env cat rcpt amt s"
| "treasury_apply env (TreasuryAddManager manager) s = treasury_addTreasuryManager env manager s"
| "treasury_apply env (TreasuryRemoveManager manager) s = treasury_removeTreasuryManager env manager s"
| "treasury_apply env (AddEmergencyManager manager) s = addEmergencyManager env manager s"
| "treasury_apply env (RemoveEmergencyManager manager) s = removeEmergencyManager env manager s"
| "treasury_apply env ToggleEmergencyMode s = toggleEmergencyMode env s"
| "treasury_apply env (EmergencyWithdraw token to amt) s = emergencyWithdraw env token to amt s"
| "treasury_apply env (TreasuryTransferOwnership newOwner) s = treasury_transferOwnership env newOwner s"
| "treasury_apply env TreasuryRenounceOwnership s = treasury_renounceOwnership env s"
| "treasury_apply env TreasuryReceive s = receive_treasury env s"

definition treasury_step :: "DAOTreasury \<Rightarrow> treasury_env \<times> treasury_call \<Rightarrow> DAOTreasury" where
  "treasury_step s tx = (case treasury_apply (fst tx) (snd tx) s of Inl e \<Rightarrow> s | Inr s' \<Rightarrow> s')"

definition treasury_run :: "(treasury_env \<times> treasury_call) list \<Rightarrow> DAOTreasury \<Rightarrow> DAOTreasury" where
  "treasury_run txs s = foldl treasury_step s txs"

text \<open>The invariant of a token's accounting record.\<close>

definition balanced :: "TokenBalance \<Rightarrow> bool" where
  "balanced tb \<longleftrightarrow> balance tb = allocated tb + available tb"

section \<open>Quantities of the specification, read off the contract's state\<close>

text \<open>
  Effective power as the specification words it: the ledger's own power, taken as 0 when
  the account has an outgoing delegation, plus the power delegated to the account.
\<close>

definition specEffectivePower :: "DAOGovernance \<Rightarrow> address \<Rightarrow> uint256" where
  "specEffectivePower s account =
     (if delegatedTo s account \<noteq> 0 then 0 else getVotingPower (governanceToken s) account)
       + delegatedVotes s account"






section \<open>A concrete run: the scenario of the repository's tests\<close>

text \<open>
  Alice (10,000 tokens), Bob (5,000) and Carol (3,000) hold tokens of 18 decimals and
  have delegated to themselves inside the token; Alice and Bob have approved the
  governance contract to burn on their behalf.
\<close>

definition alice :: address where "alice = 1"
definition bob :: address where "bob = 2"
definition carol :: address where "carol = 3"
definition ownerAddress :: address where "ownerAddress = 10"
definition daoAddress :: address where "daoAddress = 100"
definition tokenAddress :: address where "tokenAddress = 200"

definition exampleHoldings :: "address \<Rightarrow> uint256" where
  "exampleHoldings =
     (\<lambda>_. 0)(alice := 10000 * 10 ^ 18, bob := 5000 * 10 ^ 18, carol := 3000 * 10 ^ 18)"

definition exampleToken :: GovernanceToken where
  "exampleToken =
     \<lparr>balanceOf = exampleHoldings,
      allowance = (\<lambda>_ _. 0)(alice := (\<lambda>_. 0)(daoAddress := 100 * 10 ^ 18),
                              bob := (\<lambda>_. 0)(daoAddress := 16 * 10 ^ 18)),
      totalSupply = 18000 * 10 ^ 18,
      delegates = (\<lambda>_. 0)(alice := alice, bob := bob, carol := carol),
      getVotes = exampleHoldings,
      tokenPaused = False\<rparr>"

definition tx_at :: "address \<Rightarrow> uint256 \<Rightarrow> tx_env" where
  "tx_at sender now = \<lparr>msg_sender = sender, msg_value = 0, block_timestamp = now, transfer_ok = True\<rparr>"

definition genesis :: DAOGovernance where
  "genesis = projr (constructor_governance daoAddress tokenAddress exampleToken ownerAddress)"

definition afterProposal :: DAOGovernance where
  "afterProposal = gov_run [(tx_at alice 1000000, Propose ''Fund Open Source Library'' ''QmTest'')] genesis"

definition afterVote :: DAOGovernance where
  "afterVote = gov_run [(tx_at bob 1100000, Vote 1 4)] afterProposal"

definition afterDelegation :: DAOGovernance where
  "afterDelegation = gov_run [(tx_at carol 1200000, DelegateVotes bob)] afterVote"

definition afterCancel :: DAOGovernance where
  "afterCancel = gov_run [(tx_at alice 1050000, CancelProposal 1)] afterProposal"

text \<open>Alice delegates to Bob before voting herself.\<close>

definition aliceDelegated :: DAOGovernance where
  "aliceDelegated = gov_run [(tx_at alice 1090000, DelegateVotes bob)] afterProposal"

text \<open>
  Alice cancels the proposal while its voting window is open; Dave holds no tokens and
  nothing is delegated to him.
\<close>

definition dave :: address where "dave = 4"

definition cancelledInWindow :: DAOGovernance where
  "cancelledInWindow = gov_run [(tx_at alice 1090000, CancelProposal 1)] afterProposal"

text \<open>
  The owner lowers the quorum to four votes and finalises the proposal after the window.
\<close>

definition afterFinalize :: DAOGovernance where
  "afterFinalize =
     gov_run [(tx_at ownerAddress 1650000,
                 UpdateVotingConfig (defaultVotingConfig\<lparr>quorumThreshold := 4\<rparr>)),
              (tx_at ownerAddress 1700000, ExecuteProposal 1)] afterVote"

text \<open>
  The treasury of the tests: ten ether come in, half of it becomes the development
  budget, one ether is spent from the budget, and two ether are scheduled for Carol on
  behalf of proposal 1.
\<close>

definition treasury_tx :: "address \<Rightarrow> uint256 \<Rightarrow> uint256 \<Rightarrow> bool \<Rightarrow> DAOGovernance \<Rightarrow> treasury_env" where
  "treasury_tx sender val now ok g =
     \<lparr>msg_sender = sender, msg_value = val, block_timestamp = now, transfer_ok = ok,
      governance = g, this_balance = 0, erc20 = Erc20Reverts\<rparr>"

definition treasuryGenesis :: DAOTreasury where
  "treasuryGenesis = projr (constructor_treasury daoAddress ownerAddress)"

definition treasuryFunded :: DAOTreasury where
  "treasuryFunded =
     treasury_run
       [(treasury_tx alice (10 * 10 ^ 18) 1000000 True genesis, TreasuryReceive),
        (treasury_tx ownerAddress 0 1000100 True genesis,
           CreateBudgetAllocation ''development'' 0 (5 * 10 ^ 18)),
        (treasury_tx ownerAddress 0 1000200 True genesis,
           SpendFromBudget ''development'' alice (1 * 10 ^ 18))]
       treasuryGenesis"

definition treasuryScheduled :: DAOTreasury where
  "treasuryScheduled =
     treasury_run
       [(treasury_tx daoAddress 0 1700100 True afterFinalize,
           ScheduleProposalExecution 1 carol 0 (2 * 10 ^ 18) [])]
       treasuryFunded"

text \<open>The same, scheduled for a proposal number that the governance contract does not have.\<close>

definition treasuryDangling :: DAOTreasury where
  "treasuryDangling =
     treasury_run
       [(treasury_tx daoAddress 0 1700100 True afterFinalize,
           ScheduleProposalExecution 7 carol 0 (2 * 10 ^ 18) [])]
       treasuryFunded"

text \<open>The scheduled transfer, carried out by the owner once the proposal is finalised.\<close>

definition treasuryPaid :: DAOTreasury where
  "treasuryPaid =
     treasury_run
       [(treasury_tx ownerAddress 0 1700300 True afterFinalize, TreasuryExecuteProposal 1)]
       treasuryScheduled"




section \<open>Properties of VotingMechanisms\<close>

lemma uint128_square_fits:
  assumes "v \<le> MAX_UINT128"
  shows "v * v \<le> MAX_UINT256"
proof -
  have "v * v \<le> MAX_UINT128 * MAX_UINT128"
    using assms assms by (rule mult_le_mono)
  also have "\<dots> \<le> MAX_UINT256"
    by (simp add: MAX_UINT128_def MAX_UINT256_def)
  finally show ?thesis .
qed

text \<open>
  Claim C4. For every \<open>v\<close> with \<open>0 < v\<close> up to the largest admitted vote count
  (\<open>type(uint128).max\<close>) the quadratic cost is returned and equals \<open>v * v\<close>: the checked
  product cannot overflow there. Zero votes are refused with a validation error, and so is
  every vote count above the maximum.
\<close>

theorem C4_quadratic_cost:
  "(0 < v \<and> v \<le> MAX_UINT128 \<longrightarrow> calculateQuadraticCost v = Inr (v * v))
   \<and> (\<exists>e. calculateQuadraticCost 0 = Inl e \<and> errorClass e = ValidationError)
   \<and> (MAX_UINT128 < v \<longrightarrow> (\<exists>e. calculateQuadraticCost v = Inl e \<and> errorClass e = ValidationError))"
proof (intro conjI impI)
  assume "0 < v \<and> v \<le> MAX_UINT128"
  then show "calculateQuadraticCost v = Inr (v * v)"
    using uint128_square_fits [of v] by (simp add: calculateQuadraticCost_def)
next
  show "\<exists>e. calculateQuadraticCost 0 = Inl e \<and> errorClass e = ValidationError"
    by (simp add: calculateQuadraticCost_def validationMessages_def)
next
  assume "MAX_UINT128 < v"
  then show "\<exists>e. calculateQuadraticCost v = Inl e \<and> errorClass e = ValidationError"
    by (simp add: calculateQuadraticCost_def validationMessages_def)
qed

theorem C4_quadratic_cost_witness:
  "calculateQuadraticCost 4 = Inr 16
   \<and> calculateQuadraticCost (2 ^ 128) = Inl (Revert ''VotingMechanisms: votes too large'')"
proof -
  have in_range: "0 < (4::nat) \<and> 4 \<le> MAX_UINT128"
    by (simp add: MAX_UINT128_def)
  have above: "MAX_UINT128 < 2 ^ 128"
    by (simp add: MAX_UINT128_def)
  from C4_quadratic_cost [of 4] in_range have "calculateQuadraticCost 4 = Inr 16"
    by simp
  moreover from C4_quadratic_cost [of "2 ^ 128"] above
  have "\<exists>e. calculateQuadraticCost (2 ^ 128) = Inl e"
    by blast
  then have "calculateQuadraticCost (2 ^ 128) = Inl (Revert ''VotingMechanisms: votes too large'')"
    by (simp add: calculateQuadraticCost_def MAX_UINT128_def)
  ultimately show ?thesis by simp
qed

text \<open>
  Claim C10. \<open>validateVote\<close> answers \<open>(false, 0)\<close> for zero votes and for votes above the
  per-wallet maximum; for admitted votes up to \<open>2^128 - 1\<close> it answers whether the cost is
  covered by the balance, together with the cost \<open>votes * votes\<close>; for admitted votes above
  \<open>2^128 - 1\<close> the call does not return a pair at all: it reverts with the overflow guard
  of \<open>calculateQuadraticCost\<close>.
\<close>

theorem C10_validate_vote:
  "(nvotes = 0 \<or> nvotes > maxPerWallet \<longrightarrow>
      validateVote nvotes maxPerWallet tokenBalance = Inr (False, 0))
   \<and> (0 < nvotes \<and> nvotes \<le> maxPerWallet \<and> nvotes \<le> 2 ^ 128 - 1 \<longrightarrow>
      validateVote nvotes maxPerWallet tokenBalance
        = Inr (nvotes * nvotes \<le> tokenBalance, nvotes * nvotes))
   \<and> (0 < nvotes \<and> nvotes \<le> maxPerWallet \<and> nvotes > 2 ^ 128 - 1 \<longrightarrow>
      validateVote nvotes maxPerWallet tokenBalance
        = Inl (Revert ''VotingMechanisms: votes too large''))"
proof (intro conjI impI)
  assume "nvotes = 0 \<or> nvotes > maxPerWallet"
  then show "validateVote nvotes maxPerWallet tokenBalance = Inr (False, 0)"
    by (auto simp: validateVote_def)
next
  assume h: "0 < nvotes \<and> nvotes \<le> maxPerWallet \<and> nvotes \<le> 2 ^ 128 - 1"
  then have "nvotes \<le> MAX_UINT128"
    by (simp add: MAX_UINT128_def)
  then have "calculateQuadraticCost nvotes = Inr (nvotes * nvotes)"
    using h uint128_square_fits [of nvotes] by (simp add: calculateQuadraticCost_def)
  then show "validateVote nvotes maxPerWallet tokenBalance
      = Inr (nvotes * nvotes \<le> tokenBalance, nvotes * nvotes)"
    using h by (simp add: validateVote_def)
next
  assume h: "0 < nvotes \<and> nvotes \<le> maxPerWallet \<and> nvotes > 2 ^ 128 - 1"
  then have "calculateQuadraticCost nvotes = Inl (Revert ''VotingMechanisms: votes too large'')"
    by (simp add: calculateQuadraticCost_def MAX_UINT128_def)
  then show "validateVote nvotes maxPerWallet tokenBalance
      = Inl (Revert ''VotingMechanisms: votes too large'')"
    using h by (simp add: validateVote_def)
qed

theorem C10_validate_vote_witness:
  "validateVote 0 10000 100 = Inr (False, 0)
   \<and> validateVote 4 10000 100 = Inr (True, 16)
   \<and> validateVote (2 ^ 128) (2 ^ 200) 100 = Inl (Revert ''VotingMechanisms: votes too large'')"
proof -
  have a: "validateVote 0 10000 100 = Inr (False, 0)"
    using C10_validate_vote [of 0 10000 100] by simp
  have b: "validateVote 4 10000 100 = Inr (True, 16)"
    using C10_validate_vote [of 4 10000 100] by simp
  have "(0::nat) < 2 ^ 128 \<and> (2::nat) ^ 128 \<le> 2 ^ 200 \<and> (2::nat) ^ 128 > 2 ^ 128 - 1"
    by simp
  then have c: "validateVote (2 ^ 128) (2 ^ 200) 100
      = Inl (Revert ''VotingMechanisms: votes too large'')"
    using C10_validate_vote [of "2 ^ 128" "2 ^ 200" 100] by blast
  from a b c show ?thesis by simp
qed

section \<open>Properties of DAOGovernance\<close>

lemmas gov_defs = propose_def vote_def delegateVotes_def revokeDelegation_def executeProposal_def
  cancelProposal_def addTreasuryManager_def removeTreasuryManager_def depositToTreasury_def
  withdrawFromTreasury_def updateVotingConfig_def pause_def unpause_def transferOwnership_def
  renounceOwnership_def receive_governance_def

lemmas modifier_defs = modified_def onlyOwner_def whenNotPaused_def onlyTreasuryManager_def
  proposalExists_def votingActive_def

lemmas example_defs = alice_def bob_def carol_def ownerAddress_def daoAddress_def tokenAddress_def
  exampleHoldings_def exampleToken_def tx_at_def

subsection \<open>What a transaction keeps\<close>

lemma gov_apply_hasVoted:
  assumes "gov_apply env c s = Inr s'" and "hasVoted (proposals s pid) a"
  shows "hasVoted (proposals s' pid) a \<and> votes (proposals s' pid) a = votes (proposals s pid) a"
  using assms
  by (cases c) (auto simp: gov_defs modifier_defs Let_def split: if_splits option.splits sum.splits)

lemma gov_apply_proposalCount:
  assumes "gov_apply env c s = Inr s'"
  shows "proposalCount s \<le> proposalCount s'"
  using assms
  by (cases c) (auto simp: gov_defs modifier_defs Let_def split: if_splits option.splits sum.splits)

lemma gov_apply_flags:
  assumes "gov_apply env c s = Inr s'"
  shows "(executed (proposals s pid) \<longrightarrow> executed (proposals s' pid))
       \<and> (cancelled (proposals s pid) \<longrightarrow> cancelled (proposals s' pid))
       \<and> (\<not> (executed (proposals s pid) \<and> cancelled (proposals s pid))
            \<longrightarrow> \<not> (executed (proposals s' pid) \<and> cancelled (proposals s' pid)))"
  using assms
  by (cases c) (auto simp: gov_defs modifier_defs Let_def split: if_splits option.splits sum.splits)

lemma gov_step_cases:
  obtains e where "gov_apply (fst tx) (snd tx) s = Inl e" and "gov_step s tx = s"
  | s' where "gov_apply (fst tx) (snd tx) s = Inr s'" and "gov_step s tx = s'"
  by (cases "gov_apply (fst tx) (snd tx) s") (auto simp: gov_step_def)

lemma gov_run_Nil: "gov_run [] s = s"
  by (simp add: gov_run_def)

lemma gov_run_Cons: "gov_run (tx # txs) s = gov_run txs (gov_step s tx)"
  by (simp add: gov_run_def)

lemma gov_run_hasVoted:
  "hasVoted (proposals s pid) a \<Longrightarrow>
   hasVoted (proposals (gov_run txs s) pid) a
   \<and> votes (proposals (gov_run txs s) pid) a = votes (proposals s pid) a"
proof (induction txs arbitrary: s)
  case Nil
  then show ?case by (simp add: gov_run_Nil)
next
  case (Cons tx txs)
  have step: "hasVoted (proposals (gov_step s tx) pid) a
      \<and> votes (proposals (gov_step s tx) pid) a = votes (proposals s pid) a"
    using Cons.prems gov_apply_hasVoted by (cases rule: gov_step_cases [of tx s]) auto
  with Cons.IH [of "gov_step s tx"] show ?case
    by (simp add: gov_run_Cons)
qed

lemma gov_run_proposalCount: "proposalCount s \<le> proposalCount (gov_run txs s)"
proof (induction txs arbitrary: s)
  case Nil
  then show ?case by (simp add: gov_run_Nil)
next
  case (Cons tx txs)
  have "proposalCount s \<le> proposalCount (gov_step s tx)"
    using gov_apply_proposalCount by (cases rule: gov_step_cases [of tx s]) auto
  with Cons.IH [of "gov_step s tx"] show ?case
    by (simp add: gov_run_Cons)
qed

lemma gov_run_flags:
  "(executed (proposals s pid) \<longrightarrow> executed (proposals (gov_run txs s) pid))
   \<and> (cancelled (proposals s pid) \<longrightarrow> cancelled (proposals (gov_run txs s) pid))
   \<and> (\<not> (executed (proposals s pid) \<and> cancelled (proposals s pid))
        \<longrightarrow> \<not> (executed (proposals (gov_run txs s) pid) \<and> cancelled (proposals (gov_run txs s) pid)))"
proof (induction txs arbitrary: s)
  case Nil
  then show ?case by (simp add: gov_run_Nil)
next
  case (Cons tx txs)
  have step: "(executed (proposals s pid) \<longrightarrow> executed (proposals (gov_step s tx) pid))
       \<and> (cancelled (proposals s pid) \<longrightarrow> cancelled (proposals (gov_step s tx) pid))
       \<and> (\<not> (executed (proposals s pid) \<and> cancelled (proposals s pid))
            \<longrightarrow> \<not> (executed (proposals (gov_step s tx) pid) \<and> cancelled (proposals (gov_step s tx) pid)))"
    using gov_apply_flags [of "fst tx" "snd tx" s _ pid]
    by (cases rule: gov_step_cases [of tx s]) auto
  with Cons.IH [of "gov_step s tx"] show ?case
    by (simp add: gov_run_Cons)
qed

subsection \<open>The scenario, evaluated\<close>

lemma genesis_eq:
  "genesis = \<lparr>governanceToken = exampleToken, thisAddress = daoAddress, owner = ownerAddress,
      paused = False, votingConfig = defaultVotingConfig, proposalCount = 0,
      proposals = (\<lambda>_. emptyProposal), lastProposalTime = (\<lambda>_. 0),
      delegatedTo = (\<lambda>_. 0), delegatedVotes = (\<lambda>_. 0),
      treasuryBalance = 0, treasuryManagers = (\<lambda>_. False)\<rparr>"
  by (simp add: genesis_def constructor_governance_def example_defs)

lemma afterProposal_eq:
  "afterProposal = genesis\<lparr>proposalCount := 1,
     proposals := (\<lambda>_. emptyProposal)(1 := emptyProposal\<lparr>p_id := 1, proposer := alice,
        title := ''Fund Open Source Library'', ipfsHash := ''QmTest'',
        startTime := 1086400, endTime := 1691200\<rparr>),
     lastProposalTime := (\<lambda>_. 0)(alice := 1000000)\<rparr>"
  by (simp add: afterProposal_def gov_run_def gov_step_def genesis_eq propose_def modifier_defs
      getVotingPower_def defaultVotingConfig_def MAX_UINT256_def example_defs)

lemma bob_vote:
  "vote (tx_at bob 1100000) 1 4 afterProposal =
     Inr (afterProposal\<lparr>governanceToken := exampleToken
            \<lparr>balanceOf := exampleHoldings(bob := 4984 * 10 ^ 18),
             allowance := (allowance exampleToken)(bob := (\<lambda>_. 0)(daoAddress := 0)),
             totalSupply := 17984 * 10 ^ 18,
             getVotes := exampleHoldings(bob := 4984 * 10 ^ 18)\<rparr>,
          proposals := (proposals afterProposal)(1 := (proposals afterProposal 1)
            \<lparr>totalVotes := 4, totalVoters := 1,
             votes := (\<lambda>_. 0)(bob := 4), hasVoted := (\<lambda>_. False)(bob := True)\<rparr>)\<rparr>)"
  by (simp add: afterProposal_eq genesis_eq vote_def modifier_defs burnFrom_def
      approve_internal_def burn_internal_def getVotingPower_def defaultVotingConfig_def
      MAX_UINT256_def example_defs emptyProposal_def Let_def)

lemma afterVote_eq:
  "afterVote = afterProposal\<lparr>governanceToken := exampleToken
            \<lparr>balanceOf := exampleHoldings(bob := 4984 * 10 ^ 18),
             allowance := (allowance exampleToken)(bob := (\<lambda>_. 0)(daoAddress := 0)),
             totalSupply := 17984 * 10 ^ 18,
             getVotes := exampleHoldings(bob := 4984 * 10 ^ 18)\<rparr>,
          proposals := (proposals afterProposal)(1 := (proposals afterProposal 1)
            \<lparr>totalVotes := 4, totalVoters := 1,
             votes := (\<lambda>_. 0)(bob := 4), hasVoted := (\<lambda>_. False)(bob := True)\<rparr>)\<rparr>"
  unfolding afterVote_def gov_run_def gov_step_def
  by (simp only: foldl.simps fst_conv snd_conv gov_apply.simps bob_vote sum.case)

lemma afterVote_proposal:
  "proposalCount afterVote = 1 \<and> owner afterVote = ownerAddress \<and> \<not> paused afterVote
   \<and> votingConfig afterVote = defaultVotingConfig
   \<and> startTime (proposals afterVote 1) = 1086400 \<and> endTime (proposals afterVote 1) = 1691200
   \<and> totalVotes (proposals afterVote 1) = 4 \<and> totalVoters (proposals afterVote 1) = 1
   \<and> \<not> executed (proposals afterVote 1) \<and> \<not> cancelled (proposals afterVote 1)
   \<and> hasVoted (proposals afterVote 1) bob \<and> votes (proposals afterVote 1) bob = 4"
  by (simp add: afterVote_eq afterProposal_eq genesis_eq emptyProposal_def)

subsection \<open>Finalising\<close>

text \<open>
  Claim C7. For an existing proposal and the owner as caller, \<open>executeProposal\<close> (the
  finalisation) fails with a state error while the current time is not strictly after the
  end of the voting window, and when the proposal is already executed or cancelled;
  otherwise it fails with the quorum error when the total of votes is below the quorum
  threshold; otherwise it succeeds and the only change is that the proposal is executed.
\<close>

theorem C7_finalize:
  assumes "0 < pid" and "pid \<le> proposalCount s" and "msg_sender env = owner s"
  shows
    "(block_timestamp env \<le> endTime (proposals s pid) \<or> executed (proposals s pid)
        \<or> cancelled (proposals s pid)
      \<longrightarrow> (\<exists>e. executeProposal env pid s = Inl e \<and> errorClass e = StateError))
     \<and> (endTime (proposals s pid) < block_timestamp env \<and> \<not> executed (proposals s pid)
        \<and> \<not> cancelled (proposals s pid)
        \<and> totalVotes (proposals s pid) < quorumThreshold (votingConfig s)
      \<longrightarrow> executeProposal env pid s = Inl (Revert ''DAOGovernance: quorum not met'')
          \<and> errorClass (Revert ''DAOGovernance: quorum not met'') = QuorumNotMet)
     \<and> (endTime (proposals s pid) < block_timestamp env \<and> \<not> executed (proposals s pid)
        \<and> \<not> cancelled (proposals s pid)
        \<and> \<not> totalVotes (proposals s pid) < quorumThreshold (votingConfig s)
      \<longrightarrow> executeProposal env pid s
            = Inr (s\<lparr>proposals := (proposals s)(pid := (proposals s pid)\<lparr>executed := True\<rparr>)\<rparr>))"
proof (intro conjI impI)
  assume "block_timestamp env \<le> endTime (proposals s pid) \<or> executed (proposals s pid)
      \<or> cancelled (proposals s pid)"
  then show "\<exists>e. executeProposal env pid s = Inl e \<and> errorClass e = StateError"
    using assms
    by (auto simp: executeProposal_def modifier_defs Let_def stateMessages_def validationMessages_def)
next
  assume "endTime (proposals s pid) < block_timestamp env \<and> \<not> executed (proposals s pid)
      \<and> \<not> cancelled (proposals s pid)
      \<and> totalVotes (proposals s pid) < quorumThreshold (votingConfig s)"
  then show "executeProposal env pid s = Inl (Revert ''DAOGovernance: quorum not met'')"
    using assms by (simp add: executeProposal_def modifier_defs Let_def)
next
  show "errorClass (Revert ''DAOGovernance: quorum not met'') = QuorumNotMet"
    by (simp add: stateMessages_def validationMessages_def)
next
  assume "endTime (proposals s pid) < block_timestamp env \<and> \<not> executed (proposals s pid)
      \<and> \<not> cancelled (proposals s pid)
      \<and> \<not> totalVotes (proposals s pid) < quorumThreshold (votingConfig s)"
  then show "executeProposal env pid s
      = Inr (s\<lparr>proposals := (proposals s)(pid := (proposals s pid)\<lparr>executed := True\<rparr>)\<rparr>)"
    using assms by (simp add: executeProposal_def modifier_defs Let_def)
qed

text \<open>
  The scenario of the claim: four votes against the default quorum threshold, after the
  voting window has closed.
\<close>

theorem C7_finalize_witness:
  "totalVotes (proposals afterVote 1) = 4
   \<and> executeProposal (tx_at ownerAddress 1700000) 1 afterVote
       = Inl (Revert ''DAOGovernance: quorum not met'')
   \<and> (\<exists>e. executeProposal (tx_at ownerAddress 1691200) 1 afterVote = Inl e
          \<and> errorClass e = StateError)"
proof -
  have pre: "0 < (1::nat)" "1 \<le> proposalCount afterVote"
    using afterVote_proposal by simp_all
  have own: "msg_sender (tx_at ownerAddress 1700000) = owner afterVote"
    "msg_sender (tx_at ownerAddress 1691200) = owner afterVote"
    using afterVote_proposal by (simp_all add: tx_at_def)
  have late: "endTime (proposals afterVote 1) < block_timestamp (tx_at ownerAddress 1700000)
      \<and> \<not> executed (proposals afterVote 1) \<and> \<not> cancelled (proposals afterVote 1)
      \<and> totalVotes (proposals afterVote 1) < quorumThreshold (votingConfig afterVote)"
    using afterVote_proposal by (simp add: tx_at_def defaultVotingConfig_def)
  have early: "block_timestamp (tx_at ownerAddress 1691200) \<le> endTime (proposals afterVote 1)"
    using afterVote_proposal by (simp add: tx_at_def)
  from C7_finalize [OF pre own(1)] late
  have "executeProposal (tx_at ownerAddress 1700000) 1 afterVote
      = Inl (Revert ''DAOGovernance: quorum not met'')"
    by blast
  moreover from C7_finalize [OF pre own(2)] early
  have "\<exists>e. executeProposal (tx_at ownerAddress 1691200) 1 afterVote = Inl e
      \<and> errorClass e = StateError"
    by blast
  ultimately show ?thesis
    using afterVote_proposal by simp
qed

subsection \<open>The lifecycle flags\<close>

lemma constructor_flags:
  assumes "constructor_governance self tokenAddr tok initialOwner = Inr s0"
  shows "\<not> executed (proposals s0 pid) \<and> \<not> cancelled (proposals s0 pid)"
  using assms
  by (auto simp: constructor_governance_def emptyProposal_def split: if_splits)

text \<open>
  Claim C9. In every state reached from the constructor by any sequence of transactions,
  no proposal is both executed and cancelled; a flag that is set stays set through every
  further sequence of transactions; \<open>cancelProposal\<close> succeeds only for the proposer or the
  owner and only on a proposal that is neither executed nor cancelled, and the finalisation
  \<open>executeProposal\<close> succeeds only on a proposal that is neither executed nor cancelled.
\<close>

theorem C9_lifecycle_flags:
  assumes "constructor_governance self tokenAddr tok initialOwner = Inr s0"
    and "s = gov_run txs s0"
  shows
    "\<not> (executed (proposals s pid) \<and> cancelled (proposals s pid))
     \<and> (executed (proposals s pid) \<longrightarrow> executed (proposals (gov_run later s) pid))
     \<and> (cancelled (proposals s pid) \<longrightarrow> cancelled (proposals (gov_run later s) pid))
     \<and> \<not> (executed (proposals (gov_run later s) pid) \<and> cancelled (proposals (gov_run later s) pid))
     \<and> (cancelProposal env pid s = Inr s' \<longrightarrow>
          (msg_sender env = proposer (proposals s pid) \<or> msg_sender env = owner s)
          \<and> \<not> executed (proposals s pid) \<and> \<not> cancelled (proposals s pid)
          \<and> cancelled (proposals s' pid) \<and> \<not> executed (proposals s' pid))
     \<and> (executeProposal env pid s = Inr s'' \<longrightarrow>
          \<not> executed (proposals s pid) \<and> \<not> cancelled (proposals s pid)
          \<and> executed (proposals s'' pid) \<and> \<not> cancelled (proposals s'' pid))"
proof -
  have excl: "\<not> (executed (proposals s pid) \<and> cancelled (proposals s pid))"
    using constructor_flags [OF assms(1), of pid] gov_run_flags [of s0 pid txs] assms(2)
    by blast
  have keep: "(executed (proposals s pid) \<longrightarrow> executed (proposals (gov_run later s) pid))
     \<and> (cancelled (proposals s pid) \<longrightarrow> cancelled (proposals (gov_run later s) pid))
     \<and> \<not> (executed (proposals (gov_run later s) pid) \<and> cancelled (proposals (gov_run later s) pid))"
    using gov_run_flags [of s pid later] excl by blast
  have cancel: "cancelProposal env pid s = Inr s' \<longrightarrow>
          (msg_sender env = proposer (proposals s pid) \<or> msg_sender env = owner s)
          \<and> \<not> executed (proposals s pid) \<and> \<not> cancelled (proposals s pid)
          \<and> cancelled (proposals s' pid) \<and> \<not> executed (proposals s' pid)"
    by (auto simp: cancelProposal_def modifier_defs Let_def split: if_splits)
  have finalise: "executeProposal env pid s = Inr s'' \<longrightarrow>
          \<not> executed (proposals s pid) \<and> \<not> cancelled (proposals s pid)
          \<and> executed (proposals s'' pid) \<and> \<not> cancelled (proposals s'' pid)"
    by (auto simp: executeProposal_def modifier_defs Let_def split: if_splits)
  from excl keep cancel finalise show ?thesis
    by blast
qed

lemma afterCancel_eq:
  "afterCancel = afterProposal\<lparr>proposals := (proposals afterProposal)
      (1 := (proposals afterProposal 1)\<lparr>cancelled := True\<rparr>)\<rparr>"
  by (simp add: afterCancel_def gov_run_def gov_step_def cancelProposal_def modifier_defs
      afterProposal_eq genesis_eq emptyProposal_def example_defs)

theorem C9_lifecycle_flags_witness:
  "cancelled (proposals afterCancel 1) \<and> \<not> executed (proposals afterCancel 1)
   \<and> cancelled (proposals (gov_run [(tx_at ownerAddress 1700000, ExecuteProposal 1)] afterCancel) 1)
   \<and> \<not> executed (proposals (gov_run [(tx_at ownerAddress 1700000, ExecuteProposal 1)] afterCancel) 1)"
proof -
  have start: "constructor_governance daoAddress tokenAddress exampleToken ownerAddress = Inr genesis"
    by (simp add: genesis_def constructor_governance_def example_defs)
  have run: "afterCancel = gov_run [(tx_at alice 1000000, Propose ''Fund Open Source Library'' ''QmTest''),
      (tx_at alice 1050000, CancelProposal 1)] genesis"
    by (simp add: afterCancel_def afterProposal_def gov_run_def)
  have now: "cancelled (proposals afterCancel 1)"
    by (simp add: afterCancel_eq)
  from C9_lifecycle_flags [OF start run, of 1 "[(tx_at ownerAddress 1700000, ExecuteProposal 1)]"] now
  show ?thesis
    by blast
qed

subsection \<open>One vote per account and proposal\<close>

lemma vote_success:
  assumes "vote env pid v s = Inr s'"
  shows "0 < pid \<and> pid \<le> proposalCount s' \<and> hasVoted (proposals s' pid) (msg_sender env)
       \<and> votes (proposals s' pid) (msg_sender env) = v"
  using assms
  by (auto simp: vote_def modifier_defs Let_def split: if_splits sum.splits)

lemma vote_again_fails:
  assumes "0 < pid" and "pid \<le> proposalCount s" and "hasVoted (proposals s pid) (msg_sender env)"
  shows "\<exists>e. vote env pid v s = Inl e
          \<and> (\<not> paused s \<and> 0 < v \<and> v \<le> maxVotesPerWallet (votingConfig s)
               \<longrightarrow> errorClass e = StateError)
          \<and> (votingActive (block_timestamp env) pid s = None \<and> \<not> paused s \<and> 0 < v
               \<and> v \<le> maxVotesPerWallet (votingConfig s)
               \<longrightarrow> e = Revert ''DAOGovernance: already voted'')"
  using assms
  by (auto simp: vote_def modifier_defs Let_def stateMessages_def validationMessages_def)

text \<open>
  Claim C3, as the code has it. Once an account has voted successfully on a proposal,
  then after any further sequence of transactions every \<open>vote\<close> call of the same account
  on the same proposal fails and leaves the whole state as it was, and the recorded vote
  stays what it was: there is no topping up. The failure is a state error whenever the
  contract is not paused and the number of votes is positive and within the per-wallet
  maximum (it is \<open>already voted\<close> when the voting window is still open and the proposal
  active); a paused contract, zero votes or votes above the maximum are refused before
  the has-voted flag is looked at, with their own errors.
\<close>

theorem C3_no_second_vote:
  assumes "vote env1 pid v1 s = Inr s1"
    and "s2 = gov_run txs s1"
    and "msg_sender env2 = msg_sender env1"
  shows
    "(\<exists>e. vote env2 pid v2 s2 = Inl e
         \<and> (\<not> paused s2 \<and> 0 < v2 \<and> v2 \<le> maxVotesPerWallet (votingConfig s2)
              \<longrightarrow> errorClass e = StateError)
         \<and> (votingActive (block_timestamp env2) pid s2 = None \<and> \<not> paused s2 \<and> 0 < v2
              \<and> v2 \<le> maxVotesPerWallet (votingConfig s2)
              \<longrightarrow> e = Revert ''DAOGovernance: already voted''))
     \<and> gov_step s2 (env2, Vote pid v2) = s2
     \<and> votes (proposals s2 pid) (msg_sender env1) = v1"
proof -
  from vote_success [OF assms(1)]
  have first: "0 < pid" "pid \<le> proposalCount s1" "hasVoted (proposals s1 pid) (msg_sender env1)"
    "votes (proposals s1 pid) (msg_sender env1) = v1"
    by simp_all
  have count: "pid \<le> proposalCount s2"
    using first(2) gov_run_proposalCount [of s1 txs] assms(2) by simp
  have voted: "hasVoted (proposals s2 pid) (msg_sender env2)"
    and recorded: "votes (proposals s2 pid) (msg_sender env1) = v1"
    using gov_run_hasVoted [OF first(3), of txs] first(4) assms(2,3) by simp_all
  from vote_again_fails [OF first(1) count voted, of v2]
  obtain e where e: "vote env2 pid v2 s2 = Inl e"
    "\<not> paused s2 \<and> 0 < v2 \<and> v2 \<le> maxVotesPerWallet (votingConfig s2) \<longrightarrow> errorClass e = StateError"
    "votingActive (block_timestamp env2) pid s2 = None \<and> \<not> paused s2 \<and> 0 < v2
       \<and> v2 \<le> maxVotesPerWallet (votingConfig s2) \<longrightarrow> e = Revert ''DAOGovernance: already voted''"
    by blast
  have "gov_step s2 (env2, Vote pid v2) = s2"
    using e(1) by (simp add: gov_step_def)
  with e recorded show ?thesis
    by blast
qed

lemma carol_delegates:
  "delegateVotes (tx_at carol 1200000) bob afterVote =
     Inr (afterVote\<lparr>delegatedTo := (\<lambda>_. 0)(carol := bob),
                    delegatedVotes := (\<lambda>_. 0)(bob := 3000 * 10 ^ 18)\<rparr>)"
  by (simp add: delegateVotes_def modifier_defs afterVote_eq afterProposal_eq genesis_eq
      getVotingPower_def MAX_UINT256_def example_defs Let_def)

lemma afterDelegation_eq:
  "afterDelegation = afterVote\<lparr>delegatedTo := (\<lambda>_. 0)(carol := bob),
                    delegatedVotes := (\<lambda>_. 0)(bob := 3000 * 10 ^ 18)\<rparr>"
  unfolding afterDelegation_def gov_run_def gov_step_def
  by (simp only: foldl.simps fst_conv snd_conv gov_apply.simps carol_delegates sum.case)

theorem C3_no_second_vote_witness:
  "vote (tx_at bob 1300000) 1 5 afterDelegation = Inl (Revert ''DAOGovernance: already voted'')
   \<and> errorClass (Revert ''DAOGovernance: already voted'') = StateError
   \<and> gov_step afterDelegation (tx_at bob 1300000, Vote 1 5) = afterDelegation
   \<and> votes (proposals afterDelegation 1) bob = 4"
proof -
  have run: "afterDelegation = gov_run [(tx_at carol 1200000, DelegateVotes bob)] afterVote"
    by (simp add: afterDelegation_def)
  have first: "vote (tx_at bob 1100000) 1 4 afterProposal = Inr afterVote"
    using bob_vote afterVote_eq by simp
  have same: "msg_sender (tx_at bob 1300000) = msg_sender (tx_at bob 1100000)"
    by (simp add: tx_at_def)
  have sender: "msg_sender (tx_at bob 1100000) = bob"
    by (simp add: tx_at_def)
  have wellformed: "votingActive (block_timestamp (tx_at bob 1300000)) 1 afterDelegation = None
      \<and> \<not> paused afterDelegation \<and> (0::nat) < 5
      \<and> 5 \<le> maxVotesPerWallet (votingConfig afterDelegation)"
    using afterVote_proposal
    by (simp add: afterDelegation_eq votingActive_def tx_at_def defaultVotingConfig_def)
  from C3_no_second_vote [OF first run same, of 5] wellformed sender
  have "vote (tx_at bob 1300000) 1 5 afterDelegation = Inl (Revert ''DAOGovernance: already voted'')
      \<and> gov_step afterDelegation (tx_at bob 1300000, Vote 1 5) = afterDelegation
      \<and> votes (proposals afterDelegation 1) bob = 4"
    by auto
  then show ?thesis
    by (simp add: stateMessages_def validationMessages_def)
qed

text \<open>
  The claim as it was stated fails where an earlier check refuses the call: a second
  vote of zero votes is refused as an invalid argument, not as a state error.
\<close>

theorem C3_counterexample:
  "hasVoted (proposals afterVote 1) bob
   \<and> vote (tx_at bob 1100001) 1 0 afterVote
       = Inl (Revert ''DAOGovernance: votes must be greater than 0'')
   \<and> errorClass (Revert ''DAOGovernance: votes must be greater than 0'') = ValidationError
   \<and> errorClass (Revert ''DAOGovernance: votes must be greater than 0'') \<noteq> StateError"
proof -
  have "vote (tx_at bob 1100001) 1 0 afterVote
      = Inl (Revert ''DAOGovernance: votes must be greater than 0'')"
    using afterVote_proposal
    by (simp add: vote_def modifier_defs tx_at_def)
  then show ?thesis
    using afterVote_proposal by (simp add: validationMessages_def)
qed

subsection \<open>The cost of a vote\<close>

lemma burnFrom_balance:
  assumes "burnFrom caller from amt tok = Inr tok'"
  shows "balanceOf tok' from + amt = balanceOf tok from"
  using assms
  by (auto simp: burnFrom_def approve_internal_def burn_internal_def Let_def
      split: if_splits sum.splits)

text \<open>
  Claim C2, as the code has it. Power and cost are amounts of the token, which has 18
  decimals: the cost of \<open>v\<close> votes is \<open>v * v\<close> tokens, \<open>v * v * 10^18\<close> in the base units
  in which the ledger counts. For a proposal in its voting window that is neither
  executed nor cancelled, a contract that is not paused, a voter who has not voted,
  \<open>0 < v \<le> maxVotesPerWallet\<close> and amounts within \<open>uint256\<close>, \<open>vote\<close> fails with
  \<open>insufficient voting power\<close> exactly when the ledger power plus the delegated power of
  the voter is below that cost (in whole tokens: below \<open>v * v\<close>), and a successful vote
  burns exactly that cost from the voter's balance and records \<open>v\<close> votes.
\<close>

theorem C2_vote_cost:
  assumes "0 < pid" and "pid \<le> proposalCount s"
    and "startTime (proposals s pid) \<le> block_timestamp env"
    and "block_timestamp env \<le> endTime (proposals s pid)"
    and "\<not> executed (proposals s pid)" and "\<not> cancelled (proposals s pid)"
    and "\<not> paused s"
    and "\<not> hasVoted (proposals s pid) (msg_sender env)"
    and "0 < v" and "v \<le> maxVotesPerWallet (votingConfig s)"
    and "v * v * 10 ^ 18 \<le> MAX_UINT256"
    and "availableVotes s (msg_sender env) \<le> MAX_UINT256"
  shows
    "(vote env pid v s = Inl (Revert ''DAOGovernance: insufficient voting power'')
        \<longleftrightarrow> availableVotes s (msg_sender env) < v * v * 10 ^ 18)
     \<and> (vote env pid v s = Inl (Revert ''DAOGovernance: insufficient voting power'')
        \<longleftrightarrow> availableVotes s (msg_sender env) div 10 ^ 18 < v * v)
     \<and> errorClass (Revert ''DAOGovernance: insufficient voting power'') = InsufficientPower
     \<and> (\<forall>s'. vote env pid v s = Inr s' \<longrightarrow>
           balanceOf (governanceToken s') (msg_sender env) + v * v * 10 ^ 18
             = balanceOf (governanceToken s) (msg_sender env)
           \<and> votes (proposals s' pid) (msg_sender env) = v
           \<and> totalVotes (proposals s' pid) = totalVotes (proposals s pid) + v)"
proof -
  have square: "v * v \<le> MAX_UINT256"
  proof -
    have "v * v * 1 \<le> v * v * 10 ^ 18"
      by (rule mult_le_mono) simp_all
    with assms(11) show ?thesis by simp
  qed
  have power: "vote env pid v s = Inl (Revert ''DAOGovernance: insufficient voting power'')
      \<longleftrightarrow> availableVotes s (msg_sender env) < v * v * 10 ^ 18"
    using assms square
    by (auto simp: vote_def modifier_defs availableVotes_def Let_def burnFrom_def
        approve_internal_def burn_internal_def split: if_splits sum.splits)
  have debit: "\<forall>s'. vote env pid v s = Inr s' \<longrightarrow>
           balanceOf (governanceToken s') (msg_sender env) + v * v * 10 ^ 18
             = balanceOf (governanceToken s) (msg_sender env)
           \<and> votes (proposals s' pid) (msg_sender env) = v
           \<and> totalVotes (proposals s' pid) = totalVotes (proposals s pid) + v"
    using assms square
    by (auto simp: vote_def modifier_defs availableVotes_def Let_def
        split: if_splits sum.splits dest: burnFrom_balance)
  have tokens: "availableVotes s (msg_sender env) div 10 ^ 18 < v * v
      \<longleftrightarrow> availableVotes s (msg_sender env) < v * v * 10 ^ 18"
    by (rule div_less_iff_less_mult) simp
  have "errorClass (Revert ''DAOGovernance: insufficient voting power'') = InsufficientPower"
    by (simp add: stateMessages_def validationMessages_def)
  with power tokens debit show ?thesis
    by blast
qed

lemma afterProposal_facts:
  "proposalCount afterProposal = 1 \<and> \<not> paused afterProposal
   \<and> votingConfig afterProposal = defaultVotingConfig
   \<and> governanceToken afterProposal = exampleToken
   \<and> delegatedVotes afterProposal = (\<lambda>_. 0) \<and> delegatedTo afterProposal = (\<lambda>_. 0)
   \<and> startTime (proposals afterProposal 1) = 1086400
   \<and> endTime (proposals afterProposal 1) = 1691200
   \<and> \<not> executed (proposals afterProposal 1) \<and> \<not> cancelled (proposals afterProposal 1)
   \<and> hasVoted (proposals afterProposal 1) = (\<lambda>_. False)
   \<and> votes (proposals afterProposal 1) = (\<lambda>_. 0)
   \<and> totalVotes (proposals afterProposal 1) = 0
   \<and> totalVoters (proposals afterProposal 1) = 0
   \<and> thisAddress afterProposal = daoAddress"
  by (simp add: afterProposal_eq genesis_eq emptyProposal_def)

text \<open>Bob's four votes in the scenario: sixteen tokens are burnt from his 5,000.\<close>

theorem C2_vote_cost_witness:
  "vote (tx_at bob 1100000) 1 4 afterProposal = Inr afterVote
   \<and> balanceOf (governanceToken afterProposal) bob = 5000 * 10 ^ 18
   \<and> balanceOf (governanceToken afterVote) bob + 16 * 10 ^ 18 = 5000 * 10 ^ 18
   \<and> votes (proposals afterVote 1) bob = 4
   \<and> totalVotes (proposals afterVote 1) = 4"
proof -
  have first: "vote (tx_at bob 1100000) 1 4 afterProposal = Inr afterVote"
    using bob_vote afterVote_eq by simp
  have held: "balanceOf (governanceToken afterProposal) bob = 5000 * 10 ^ 18"
    using afterProposal_facts by (simp add: example_defs)
  have "0 < (1::nat)" "1 \<le> proposalCount afterProposal"
    "startTime (proposals afterProposal 1) \<le> block_timestamp (tx_at bob 1100000)"
    "block_timestamp (tx_at bob 1100000) \<le> endTime (proposals afterProposal 1)"
    "\<not> executed (proposals afterProposal 1)" "\<not> cancelled (proposals afterProposal 1)"
    "\<not> paused afterProposal"
    "\<not> hasVoted (proposals afterProposal 1) (msg_sender (tx_at bob 1100000))"
    "0 < (4::nat)" "4 \<le> maxVotesPerWallet (votingConfig afterProposal)"
    "(4::nat) * 4 * 10 ^ 18 \<le> MAX_UINT256"
    "availableVotes afterProposal (msg_sender (tx_at bob 1100000)) \<le> MAX_UINT256"
    using afterProposal_facts
    by (simp_all add: defaultVotingConfig_def MAX_UINT256_def availableVotes_def
        getVotingPower_def example_defs)
  from C2_vote_cost [OF this] first held
  have "balanceOf (governanceToken afterVote) (msg_sender (tx_at bob 1100000)) + 4 * 4 * 10 ^ 18
      = 5000 * 10 ^ 18
    \<and> votes (proposals afterVote 1) (msg_sender (tx_at bob 1100000)) = 4
    \<and> totalVotes (proposals afterVote 1) = totalVotes (proposals afterProposal 1) + 4"
    by (simp add: tx_at_def)
  with first held show ?thesis
    using afterProposal_facts by (simp add: tx_at_def)
qed

lemma cancelledInWindow_eq:
  "cancelledInWindow = afterProposal\<lparr>proposals := (proposals afterProposal)
      (1 := (proposals afterProposal 1)\<lparr>cancelled := True\<rparr>)\<rparr>"
  by (simp add: cancelledInWindow_def gov_run_def gov_step_def cancelProposal_def modifier_defs
      afterProposal_eq genesis_eq emptyProposal_def example_defs)

text \<open>
  The claim as it was stated speaks of every proposal in its voting window. Proposal 1 is
  cancelled inside its window; Dave has not voted and has no power at all, so his one
  vote costs more than he has in any unit. The call is refused because the proposal is
  not active, a state error, and not for insufficient power.
\<close>

theorem C2_counterexample:
  "cancelledInWindow
     = gov_run [(tx_at alice 1000000, Propose ''Fund Open Source Library'' ''QmTest''),
                (tx_at alice 1090000, CancelProposal 1)] genesis
   \<and> (1::nat) \<le> proposalCount cancelledInWindow
   \<and> cancelled (proposals cancelledInWindow 1)
   \<and> \<not> paused cancelledInWindow
   \<and> startTime (proposals cancelledInWindow 1) \<le> block_timestamp (tx_at dave 1100000)
   \<and> block_timestamp (tx_at dave 1100000) \<le> endTime (proposals cancelledInWindow 1)
   \<and> \<not> hasVoted (proposals cancelledInWindow 1) dave
   \<and> (1::nat) \<le> maxVotesPerWallet (votingConfig cancelledInWindow)
   \<and> availableVotes cancelledInWindow dave = 0
   \<and> availableVotes cancelledInWindow dave < 1 * 1
   \<and> vote (tx_at dave 1100000) 1 1 cancelledInWindow
       = Inl (Revert ''DAOGovernance: proposal not active'')
   \<and> errorClass (Revert ''DAOGovernance: proposal not active'') = StateError
   \<and> errorClass (Revert ''DAOGovernance: proposal not active'') \<noteq> InsufficientPower"
proof -
  have refused: "vote (tx_at dave 1100000) 1 1 cancelledInWindow
      = Inl (Revert ''DAOGovernance: proposal not active'')"
    using afterProposal_facts
    by (simp add: cancelledInWindow_eq vote_def modifier_defs tx_at_def Let_def)
  have power: "availableVotes cancelledInWindow dave = 0"
    using afterProposal_facts
    by (simp add: cancelledInWindow_eq availableVotes_def getVotingPower_def dave_def
        example_defs)
  have reached: "cancelledInWindow
     = gov_run [(tx_at alice 1000000, Propose ''Fund Open Source Library'' ''QmTest''),
                (tx_at alice 1090000, CancelProposal 1)] genesis"
    by (simp add: cancelledInWindow_def afterProposal_def gov_run_def)
  have "(1::nat) \<le> proposalCount cancelledInWindow
   \<and> cancelled (proposals cancelledInWindow 1)
   \<and> \<not> paused cancelledInWindow
   \<and> startTime (proposals cancelledInWindow 1) \<le> block_timestamp (tx_at dave 1100000)
   \<and> block_timestamp (tx_at dave 1100000) \<le> endTime (proposals cancelledInWindow 1)
   \<and> \<not> hasVoted (proposals cancelledInWindow 1) dave
   \<and> (1::nat) \<le> maxVotesPerWallet (votingConfig cancelledInWindow)
   \<and> errorClass (Revert ''DAOGovernance: proposal not active'') = StateError"
    using afterProposal_facts
    by (simp add: cancelledInWindow_eq tx_at_def defaultVotingConfig_def stateMessages_def
        validationMessages_def)
  with reached refused power show ?thesis
    by simp
qed

subsection \<open>Delegation and the power available in a vote\<close>

lemma delegateVotes_result:
  assumes "delegateVotes env delegatee s = Inr s'"
  shows "s' = s\<lparr>delegatedTo := (delegatedTo s)(msg_sender env := delegatee),
                 delegatedVotes := delegatedVotes s'\<rparr>
         \<and> delegatee \<noteq> 0 \<and> delegatee \<noteq> msg_sender env
         \<and> (delegatedTo s (msg_sender env) \<noteq> msg_sender env
              \<longrightarrow> delegatedVotes s' (msg_sender env) = delegatedVotes s (msg_sender env))
         \<and> (delegatedTo s (msg_sender env) \<noteq> delegatee
              \<longrightarrow> delegatedVotes s' delegatee = delegatedVotes s delegatee
                    + getVotingPower (governanceToken s) (msg_sender env))"
  using assms
  by (auto simp: delegateVotes_def modifier_defs Let_def split: if_splits)

lemma vote_delegation_frame:
  assumes "dv (msg_sender env) = delegatedVotes s (msg_sender env)"
  shows "vote env pid v (s\<lparr>delegatedTo := dt, delegatedVotes := dv\<rparr>)
       = map_sum id (\<lambda>t. t\<lparr>delegatedTo := dt, delegatedVotes := dv\<rparr>) (vote env pid v s)"
  using assms
  by (simp add: vote_def modifier_defs Let_def split: sum.splits)

lemma vote_insufficient_power:
  assumes "vote env pid v s = Inl (Revert ''DAOGovernance: insufficient voting power'')"
  shows "availableVotes s (msg_sender env) < v * v * 10 ^ 18"
  using assms
  by (auto simp: vote_def modifier_defs availableVotes_def Let_def burnFrom_def
      approve_internal_def burn_internal_def split: if_splits sum.splits)

text \<open>
  Claim C1, as the code has it. The power against which \<open>vote\<close> checks the cost is
  \<open>getVotingPower(voter) + delegatedVotes[voter]\<close>, and the ledger term does not depend
  on the voter's own outgoing delegation. After a successful \<open>delegateVotes\<close> (by an
  account that is not recorded as its own delegate, which no call can bring about) the
  delegatee's \<open>delegatedVotes\<close> has grown by the delegator's ledger power, while the
  delegator's own available power is what it was, and every \<open>vote\<close> call of the
  delegator has the outcome it would have had without the delegation: the same error, or
  the same tallies and the same burn. In particular such a call is refused for
  insufficient voting power only when that unreduced sum is below the cost.
\<close>

theorem C1_available_power:
  assumes "delegateVotes env delegatee s = Inr s'"
    and "delegatedTo s (msg_sender env) \<noteq> msg_sender env"
    and "msg_sender env2 = msg_sender env"
  shows
    "delegatedTo s' (msg_sender env) = delegatee \<and> delegatee \<noteq> 0
     \<and> (delegatedTo s (msg_sender env) \<noteq> delegatee \<longrightarrow>
          delegatedVotes s' delegatee
            = delegatedVotes s delegatee + getVotingPower (governanceToken s) (msg_sender env))
     \<and> availableVotes s' (msg_sender env)
          = getVotingPower (governanceToken s) (msg_sender env) + delegatedVotes s (msg_sender env)
     \<and> availableVotes s' (msg_sender env) = availableVotes s (msg_sender env)
     \<and> vote env2 pid v s'
          = map_sum id (\<lambda>t. t\<lparr>delegatedTo := delegatedTo s', delegatedVotes := delegatedVotes s'\<rparr>)
              (vote env2 pid v s)
     \<and> (vote env2 pid v s' = Inl (Revert ''DAOGovernance: insufficient voting power'')
          \<longrightarrow> getVotingPower (governanceToken s) (msg_sender env)
                + delegatedVotes s (msg_sender env) < v * v * 10 ^ 18)"
proof -
  define dv where "dv = delegatedVotes s'"
  from delegateVotes_result [OF assms(1)] assms(2)
  have dv:
    "s' = s\<lparr>delegatedTo := (delegatedTo s)(msg_sender env := delegatee), delegatedVotes := dv\<rparr>"
    "delegatee \<noteq> 0" "dv (msg_sender env) = delegatedVotes s (msg_sender env)"
    "delegatedTo s (msg_sender env) \<noteq> delegatee \<longrightarrow>
       dv delegatee = delegatedVotes s delegatee + getVotingPower (governanceToken s) (msg_sender env)"
    unfolding dv_def by blast+
  have frame: "vote env2 pid v s'
      = map_sum id (\<lambda>t. t\<lparr>delegatedTo := delegatedTo s', delegatedVotes := delegatedVotes s'\<rparr>)
          (vote env2 pid v s)"
    using vote_delegation_frame [of dv env2 s pid v "(delegatedTo s)(msg_sender env := delegatee)"]
      dv(1,3) assms(3)
    by simp
  have refused: "vote env2 pid v s' = Inl (Revert ''DAOGovernance: insufficient voting power'')
      \<longrightarrow> availableVotes s' (msg_sender env) < v * v * 10 ^ 18"
    using vote_insufficient_power [of env2 pid v s'] assms(3) by simp
  from dv frame refused show ?thesis
    by (simp add: availableVotes_def)
qed

lemma alice_delegates:
  "delegateVotes (tx_at alice 1090000) bob afterProposal =
     Inr (afterProposal\<lparr>delegatedTo := (\<lambda>_. 0)(alice := bob),
                         delegatedVotes := (\<lambda>_. 0)(bob := 10000 * 10 ^ 18)\<rparr>)"
  by (simp add: delegateVotes_def modifier_defs afterProposal_eq genesis_eq
      getVotingPower_def MAX_UINT256_def example_defs Let_def)

lemma aliceDelegated_eq:
  "aliceDelegated = afterProposal\<lparr>delegatedTo := (\<lambda>_. 0)(alice := bob),
                         delegatedVotes := (\<lambda>_. 0)(bob := 10000 * 10 ^ 18)\<rparr>"
  unfolding aliceDelegated_def gov_run_def gov_step_def
  by (simp only: foldl.simps fst_conv snd_conv gov_apply.simps alice_delegates sum.case)

lemma alice_votes_after_delegating:
  "votes (proposals (gov_step aliceDelegated (tx_at alice 1100000, Vote 1 4)) 1) alice = 4"
  using afterProposal_facts
  by (simp add: gov_step_def aliceDelegated_eq vote_def modifier_defs burnFrom_def
      approve_internal_def burn_internal_def getVotingPower_def defaultVotingConfig_def
      MAX_UINT256_def example_defs Let_def)

theorem C1_available_power_witness:
  "delegatedTo aliceDelegated alice = bob
   \<and> delegatedVotes aliceDelegated bob = 10000 * 10 ^ 18
   \<and> availableVotes aliceDelegated alice = 10000 * 10 ^ 18
   \<and> availableVotes aliceDelegated alice = availableVotes afterProposal alice"
proof -
  have step: "delegateVotes (tx_at alice 1090000) bob afterProposal = Inr aliceDelegated"
    using alice_delegates aliceDelegated_eq by simp
  have before: "delegatedTo afterProposal (msg_sender (tx_at alice 1090000))
      \<noteq> msg_sender (tx_at alice 1090000)"
    "delegatedTo afterProposal (msg_sender (tx_at alice 1090000)) \<noteq> bob"
    "getVotingPower (governanceToken afterProposal) alice = 10000 * 10 ^ 18"
    "delegatedVotes afterProposal alice = 0" "delegatedVotes afterProposal bob = 0"
    using afterProposal_facts by (simp_all add: getVotingPower_def example_defs)
  have same: "msg_sender (tx_at alice 1100000) = msg_sender (tx_at alice 1090000)"
    by (simp add: tx_at_def)
  from C1_available_power [OF step before(1) same, of 1 4] before(2-5)
  show ?thesis
    by (simp add: tx_at_def availableVotes_def)
qed

text \<open>
  The claim as it was stated: in the scenario Alice has an outgoing delegation to Bob and
  nothing is delegated to her, so her available power should be 0. The code still lets
  her 10,000 tokens count for herself, while they also count for Bob, and her own vote
  of four goes through on them.
\<close>

theorem C1_counterexample:
  "delegatedTo aliceDelegated alice = bob \<and> bob \<noteq> 0
   \<and> delegatedVotes aliceDelegated alice = 0
   \<and> specEffectivePower aliceDelegated alice = 0
   \<and> availableVotes aliceDelegated alice = 10000 * 10 ^ 18
   \<and> availableVotes aliceDelegated bob = 15000 * 10 ^ 18
   \<and> votes (proposals (gov_step aliceDelegated (tx_at alice 1100000, Vote 1 4)) 1) alice = 4"
  using afterProposal_facts alice_votes_after_delegating
  by (simp add: aliceDelegated_eq specEffectivePower_def availableVotes_def getVotingPower_def
      example_defs)

subsection \<open>Delegation: round trip and totals\<close>





















section \<open>Properties of DAOTreasury\<close>

lemmas treasury_defs = addSupportedToken_def depositETH_def depositToken_def receive_treasury_def
  credit_def scheduleProposalExecution_def treasury_executeProposal_def transferOut_def
  getProposal_executed_def createBudgetAllocation_def spendFromBudget_def
  treasury_addTreasuryManager_def treasury_removeTreasuryManager_def addEmergencyManager_def
  removeEmergencyManager_def toggleEmergencyMode_def emergencyWithdraw_def
  treasury_transferOwnership_def treasury_renounceOwnership_def

lemmas treasury_modifier_defs = modified_def onlyDAO_def onlyManager_def onlyEmergencyManager_def
  notInEmergency_def onlyTreasuryOwner_def proposalExists_def

lemma treasury_step_cases:
  obtains e where "treasury_apply (fst tx) (snd tx) s = Inl e" and "treasury_step s tx = s"
  | s' where "treasury_apply (fst tx) (snd tx) s = Inr s'" and "treasury_step s tx = s'"
  by (cases "treasury_apply (fst tx) (snd tx) s") (auto simp: treasury_step_def)

lemma treasury_run_Nil: "treasury_run [] s = s"
  by (simp add: treasury_run_def)

lemma treasury_run_Cons: "treasury_run (tx # txs) s = treasury_run txs (treasury_step s tx)"
  by (simp add: treasury_run_def)

lemma treasury_run_snoc: "treasury_run (txs @ [tx]) s = treasury_step (treasury_run txs s) tx"
  by (simp add: treasury_run_def)

subsection \<open>The accounting invariant\<close>

lemma executeProposal_apply:
  "treasury_apply env (TreasuryExecuteProposal eid) s = Inr s'
     \<longleftrightarrow> (\<exists>ok. treasury_executeProposal env eid s = Inr (ok, s'))"
proof (cases "treasury_executeProposal env eid s")
  case (Inl e)
  then show ?thesis by simp
next
  case (Inr p)
  then show ?thesis by (cases p) simp
qed

lemma executeProposal_balanced:
  assumes "treasury_executeProposal env eid s = Inr (ok, s')"
    and "\<forall>t. balanced (tokenBalances s t)"
  shows "balanced (tokenBalances s' token)"
  using assms
  by (auto simp: treasury_executeProposal_def modified_def balanced_def Let_def
      split: if_splits sum.splits option.splits)

lemma credit_balanced:
  assumes "credit token0 val s = Inr s'" and "\<forall>t. balanced (tokenBalances s t)"
  shows "balanced (tokenBalances s' token)"
  using assms
  by (auto simp: credit_def balanced_def Let_def split: if_splits)

lemma depositETH_balanced:
  assumes "depositETH env s = Inr s'" and "\<forall>t. balanced (tokenBalances s t)"
  shows "balanced (tokenBalances s' token)"
  using assms credit_balanced
  by (auto simp: depositETH_def modified_def 
      split: if_splits option.splits erc20_outcome.splits)

lemma depositToken_balanced:
  assumes "depositToken env tok amt s = Inr s'" and "\<forall>t. balanced (tokenBalances s t)"
  shows "balanced (tokenBalances s' token)"
  using assms credit_balanced
  by (auto simp: depositToken_def modified_def 
      split: if_splits option.splits erc20_outcome.splits)

lemma receive_treasury_balanced:
  assumes "receive_treasury env s = Inr s'" and "\<forall>t. balanced (tokenBalances s t)"
  shows "balanced (tokenBalances s' token)"
  using assms credit_balanced
  by (auto simp: receive_treasury_def modified_def 
      split: if_splits option.splits erc20_outcome.splits)

lemma scheduleProposalExecution_balanced:
  assumes "scheduleProposalExecution env pid rcpt tok amt dat s = Inr s'" and "\<forall>t. balanced (tokenBalances s t)"
  shows "balanced (tokenBalances s' token)"
  using assms 
  by (auto simp: scheduleProposalExecution_def modified_def balanced_def Let_def
      split: if_splits option.splits erc20_outcome.splits)

lemma createBudgetAllocation_balanced:
  assumes "createBudgetAllocation env cat tok amt s = Inr s'" and "\<forall>t. balanced (tokenBalances s t)"
  shows "balanced (tokenBalances s' token)"
  using assms 
  by (auto simp: createBudgetAllocation_def modified_def balanced_def Let_def
      split: if_splits option.splits erc20_outcome.splits)

lemma spendFromBudget_balanced:
  assumes "spendFromBudget env cat rcpt amt s = Inr s'" and "\<forall>t. balanced (tokenBalances s t)"
  shows "balanced (tokenBalances s' token)"
  using assms 
  by (auto simp: spendFromBudget_def modified_def balanced_def Let_def
      split: if_splits option.splits erc20_outcome.splits)

lemma addSupportedToken_balanced:
  assumes "addSupportedToken env tok s = Inr s'" and "\<forall>t. balanced (tokenBalances s t)"
  shows "balanced (tokenBalances s' token)"
  using assms 
  by (auto simp: addSupportedToken_def modified_def balanced_def Let_def
      split: if_splits option.splits erc20_outcome.splits)

lemma treasury_addTreasuryManager_balanced:
  assumes "treasury_addTreasuryManager env a s = Inr s'" and "\<forall>t. balanced (tokenBalances s t)"
  shows "balanced (tokenBalances s' token)"
  using assms
  by (auto simp: treasury_addTreasuryManager_def modified_def split: if_splits option.splits)

lemma treasury_removeTreasuryManager_balanced:
  assumes "treasury_removeTreasuryManager env a s = Inr s'" and "\<forall>t. balanced (tokenBalances s t)"
  shows "balanced (tokenBalances s' token)"
  using assms
  by (auto simp: treasury_removeTreasuryManager_def modified_def split: if_splits option.splits)

lemma addEmergencyManager_balanced:
  assumes "addEmergencyManager env a s = Inr s'" and "\<forall>t. balanced (tokenBalances s t)"
  shows "balanced (tokenBalances s' token)"
  using assms
  by (auto simp: addEmergencyManager_def modified_def split: if_splits option.splits)

lemma removeEmergencyManager_balanced:
  assumes "removeEmergencyManager env a s = Inr s'" and "\<forall>t. balanced (tokenBalances s t)"
  shows "balanced (tokenBalances s' token)"
  using assms
  by (auto simp: removeEmergencyManager_def modified_def split: if_splits option.splits)

lemma toggleEmergencyMode_balanced:
  assumes "toggleEmergencyMode env s = Inr s'" and "\<forall>t. balanced (tokenBalances s t)"
  shows "balanced (tokenBalances s' token)"
  using assms
  by (auto simp: toggleEmergencyMode_def modified_def split: if_splits option.splits)

lemma emergencyWithdraw_balanced:
  assumes "emergencyWithdraw env tok a amt s = Inr s'" and "\<forall>t. balanced (tokenBalances s t)"
  shows "balanced (tokenBalances s' token)"
  using assms
  by (auto simp: emergencyWithdraw_def modified_def split: if_splits option.splits)

lemma treasury_transferOwnership_balanced:
  assumes "treasury_transferOwnership env a s = Inr s'" and "\<forall>t. balanced (tokenBalances s t)"
  shows "balanced (tokenBalances s' token)"
  using assms
  by (auto simp: treasury_transferOwnership_def modified_def split: if_splits option.splits)

lemma treasury_renounceOwnership_balanced:
  assumes "treasury_renounceOwnership env s = Inr s'" and "\<forall>t. balanced (tokenBalances s t)"
  shows "balanced (tokenBalances s' token)"
  using assms
  by (auto simp: treasury_renounceOwnership_def modified_def split: if_splits option.splits)

lemma treasury_apply_balanced:
  assumes "treasury_apply env c s = Inr s'" and "\<forall>t. balanced (tokenBalances s t)"
  shows "balanced (tokenBalances s' token)"
proof (cases c)
  case (TreasuryExecuteProposal eid)
  with assms(1) obtain ok where "treasury_executeProposal env eid s = Inr (ok, s')"
    using executeProposal_apply by blast
  then show ?thesis
    using assms(2) by (rule executeProposal_balanced)
next
  case (AddSupportedToken tok)
  with assms(1) have "addSupportedToken env tok s = Inr s'" by simp
  then show ?thesis using assms(2) by (rule addSupportedToken_balanced)
next
  case DepositETH
  with assms(1) have "depositETH env s = Inr s'" by simp
  then show ?thesis using assms(2) by (rule depositETH_balanced)
next
  case (DepositToken tok amt)
  with assms(1) have "depositToken env tok amt s = Inr s'" by simp
  then show ?thesis using assms(2) by (rule depositToken_balanced)
next
  case TreasuryReceive
  with assms(1) have "receive_treasury env s = Inr s'" by simp
  then show ?thesis using assms(2) by (rule receive_treasury_balanced)
next
  case (ScheduleProposalExecution pid rcpt tok amt dat)
  with assms(1) have "scheduleProposalExecution env pid rcpt tok amt dat s = Inr s'" by simp
  then show ?thesis using assms(2) by (rule scheduleProposalExecution_balanced)
next
  case (CreateBudgetAllocation cat tok amt)
  with assms(1) have "createBudgetAllocation env cat tok amt s = Inr s'" by simp
  then show ?thesis using assms(2) by (rule createBudgetAllocation_balanced)
next
  case (SpendFromBudget cat rcpt amt)
  with assms(1) have "spendFromBudget env cat rcpt amt s = Inr s'" by simp
  then show ?thesis using assms(2) by (rule spendFromBudget_balanced)
next
  case (TreasuryAddManager a)
  with assms(1) have "treasury_addTreasuryManager env a s = Inr s'" by simp
  then show ?thesis using assms(2) by (rule treasury_addTreasuryManager_balanced)
next
  case (TreasuryRemoveManager a)
  with assms(1) have "treasury_removeTreasuryManager env a s = Inr s'" by simp
  then show ?thesis using assms(2) by (rule treasury_removeTreasuryManager_balanced)
next
  case (AddEmergencyManager a)
  with assms(1) have "addEmergencyManager env a s = Inr s'" by simp
  then show ?thesis using assms(2) by (rule addEmergencyManager_balanced)
next
  case (RemoveEmergencyManager a)
  with assms(1) have "removeEmergencyManager env a s = Inr s'" by simp
  then show ?thesis using assms(2) by (rule removeEmergencyManager_balanced)
next
  case ToggleEmergencyMode
  with assms(1) have "toggleEmergencyMode env s = Inr s'" by simp
  then show ?thesis using assms(2) by (rule toggleEmergencyMode_balanced)
next
  case (EmergencyWithdraw tok a amt)
  with assms(1) have "emergencyWithdraw env tok a amt s = Inr s'" by simp
  then show ?thesis using assms(2) by (rule emergencyWithdraw_balanced)
next
  case (TreasuryTransferOwnership a)
  with assms(1) have "treasury_transferOwnership env a s = Inr s'" by simp
  then show ?thesis using assms(2) by (rule treasury_transferOwnership_balanced)
next
  case TreasuryRenounceOwnership
  with assms(1) have "treasury_renounceOwnership env s = Inr s'" by simp
  then show ?thesis using assms(2) by (rule treasury_renounceOwnership_balanced)
qed


lemma constructor_balanced:
  assumes "constructor_treasury dao initialOwner = Inr s0"
  shows "balanced (tokenBalances s0 token)"
  using assms
  by (auto simp: constructor_treasury_def balanced_def emptyTokenBalance_def split: if_splits)

lemma treasury_run_balanced:
  assumes "\<forall>t. balanced (tokenBalances s t)"
  shows "balanced (tokenBalances (treasury_run txs s) token)"
  using assms
proof (induction txs arbitrary: s token)
  case Nil
  then show ?case by (simp add: treasury_run_Nil)
next
  case (Cons tx txs)
  have "\<forall>t. balanced (tokenBalances (treasury_step s tx) t)"
  proof (cases rule: treasury_step_cases [of tx s])
    case (1 e)
    then show ?thesis using Cons.prems by simp
  next
    case (2 s')
    then show ?thesis using Cons.prems treasury_apply_balanced by metis
  qed
  then show ?case
    using Cons.IH by (simp add: treasury_run_Cons)
qed

text \<open>
  Claim C5. Starting from the constructor, where every record is zero, after every
  sequence of treasury transactions each token's record satisfies
  \<open>balance = allocated + available\<close>; so it does after any one further operation, be it
  a deposit, a scheduling, an execution (with the transfer done or with the transfer
  failed and the decrements put back), a budget creation, a budget spend or an emergency
  withdrawal, whether the operation succeeds or reverts.
\<close>

theorem C5_treasury_balanced:
  assumes "constructor_treasury dao initialOwner = Inr s0"
  shows
    "balanced (tokenBalances (treasury_run txs s0) token)
     \<and> balanced (tokenBalances (treasury_step (treasury_run txs s0) tx) token)
     \<and> (treasury_executeProposal env eid (treasury_run txs s0) = Inr (False, s')
          \<longrightarrow> balanced (tokenBalances s' token))
     \<and> balance (tokenBalances (treasury_run txs s0) token)
          = allocated (tokenBalances (treasury_run txs s0) token)
            + available (tokenBalances (treasury_run txs s0) token)"
proof -
  have start: "\<forall>t. balanced (tokenBalances s0 t)"
    using constructor_balanced [OF assms] by blast
  then have reached: "\<forall>t. balanced (tokenBalances (treasury_run txs s0) t)"
    using treasury_run_balanced by blast
  have one_more: "balanced (tokenBalances (treasury_step (treasury_run txs s0) tx) token)"
    using treasury_run_balanced [OF start, of "txs @ [tx]" token]
    by (simp add: treasury_run_snoc)
  have rolled_back: "treasury_executeProposal env eid (treasury_run txs s0) = Inr (False, s')
      \<longrightarrow> balanced (tokenBalances s' token)"
    using executeProposal_balanced reached by blast
  from reached one_more rolled_back show ?thesis
    by (simp add: balanced_def)
qed

subsection \<open>The example treasury, evaluated\<close>

lemma treasuryGenesis_eq:
  "treasuryGenesis = \<lparr>daoGovernance = daoAddress, treasuryOwner = ownerAddress,
      tokenBalances = (\<lambda>_. emptyTokenBalance),
      supportedTokens = [0],
      proposalExecutions = (\<lambda>_. emptyExecution),
      budgetAllocations = (\<lambda>_. emptyBudget),
      budgetCategories = [],
      managers = (\<lambda>_. False), emergencyManagers = (\<lambda>_. False),
      totalProposalExecutions = 0, emergencyMode = False\<rparr>"
  by (simp add: treasuryGenesis_def constructor_treasury_def emptyTokenBalance_def example_defs
      fun_upd_idem)

lemma treasuryFunded_eq:
  "treasuryFunded = treasuryGenesis\<lparr>
      tokenBalances := (\<lambda>_. emptyTokenBalance)
        (0 := \<lparr>tb_token = 0, balance = 9 * 10 ^ 18, allocated = 4 * 10 ^ 18,
                available = 5 * 10 ^ 18\<rparr>),
      budgetAllocations := (\<lambda>_. emptyBudget)
        (''development'' := \<lparr>category = ''development'', ba_token = 0,
            totalBudget = 5 * 10 ^ 18, spentAmount = 1 * 10 ^ 18,
            remainingBudget = 4 * 10 ^ 18, active = True\<rparr>),
      budgetCategories := [''development'']\<rparr>"
  by (simp add: treasuryFunded_def treasury_run_def treasury_step_def treasuryGenesis_eq
      receive_treasury_def credit_def createBudgetAllocation_def spendFromBudget_def
      treasury_modifier_defs treasury_tx_def emptyTokenBalance_def emptyBudget_def
      MAX_UINT256_def example_defs Let_def)

lemma treasuryScheduled_eq:
  "treasuryScheduled = treasuryFunded\<lparr>
      tokenBalances := (\<lambda>_. emptyTokenBalance)
        (0 := \<lparr>tb_token = 0, balance = 9 * 10 ^ 18, allocated = 6 * 10 ^ 18,
                available = 3 * 10 ^ 18\<rparr>),
      totalProposalExecutions := 1,
      proposalExecutions := (\<lambda>_. emptyExecution)
        (1 := \<lparr>pe_proposalId = 1, recipient = carol, pe_token = 0, amount = 2 * 10 ^ 18,
                data = [], pe_executed = False, executionTime = 0\<rparr>)\<rparr>"
  by (simp add: treasuryScheduled_def treasury_run_def treasury_step_def treasuryFunded_eq
      treasuryGenesis_eq scheduleProposalExecution_def
      treasury_modifier_defs treasury_tx_def emptyTokenBalance_def
      MAX_UINT256_def example_defs Let_def)


theorem C5_treasury_balanced_witness:
  "tokenBalances treasuryScheduled 0
     = \<lparr>tb_token = 0, balance = 9 * 10 ^ 18, allocated = 6 * 10 ^ 18, available = 3 * 10 ^ 18\<rparr>
   \<and> balanced (tokenBalances treasuryScheduled 0)
   \<and> balanced (tokenBalances (treasury_step treasuryScheduled
         (treasury_tx ownerAddress 0 1700200 False afterFinalize, TreasuryExecuteProposal 1)) 0)"
proof -
  have start: "constructor_treasury daoAddress ownerAddress = Inr treasuryGenesis"
    by (simp add: treasuryGenesis_def constructor_treasury_def example_defs)
  have run: "treasuryScheduled = treasury_run
      [(treasury_tx alice (10 * 10 ^ 18) 1000000 True genesis, TreasuryReceive),
       (treasury_tx ownerAddress 0 1000100 True genesis,
          CreateBudgetAllocation ''development'' 0 (5 * 10 ^ 18)),
       (treasury_tx ownerAddress 0 1000200 True genesis,
          SpendFromBudget ''development'' alice (1 * 10 ^ 18)),
       (treasury_tx daoAddress 0 1700100 True afterFinalize,
          ScheduleProposalExecution 1 carol 0 (2 * 10 ^ 18) [])] treasuryGenesis"
    by (simp add: treasuryScheduled_def treasuryFunded_def treasury_run_def)
  have held: "tokenBalances treasuryScheduled 0
     = \<lparr>tb_token = 0, balance = 9 * 10 ^ 18, allocated = 6 * 10 ^ 18, available = 3 * 10 ^ 18\<rparr>"
    by (simp add: treasuryScheduled_eq)
  from C5_treasury_balanced [OF start, of _ 0
      "(treasury_tx ownerAddress 0 1700200 False afterFinalize, TreasuryExecuteProposal 1)"]
    run held
  show ?thesis
    by metis
qed

subsection \<open>Executing a scheduled transfer\<close>

lemma executeProposal_refused:
  assumes "\<not> (0 < eid \<and> eid \<le> totalProposalExecutions s) \<or> pe_executed (proposalExecutions s eid)"
  shows "\<exists>e. treasury_executeProposal env eid s = Inl e"
  using assms
  by (auto simp: treasury_executeProposal_def modified_def Let_def split: option.splits)

lemma executeProposal_gate:
  assumes "managers s (msg_sender env) \<or> msg_sender env = treasuryOwner s"
    and "\<not> emergencyMode s"
    and "0 < eid" and "eid \<le> totalProposalExecutions s"
    and "\<not> pe_executed (proposalExecutions s eid)"
  shows "(0 < pe_proposalId (proposalExecutions s eid)
          \<and> pe_proposalId (proposalExecutions s eid) \<le> proposalCount (governance env)
          \<and> \<not> executed (proposals (governance env) (pe_proposalId (proposalExecutions s eid)))
        \<longrightarrow> treasury_executeProposal env eid s
              = Inl (Revert ''DAOTreasury: proposal not executed in governance''))
       \<and> (\<not> (0 < pe_proposalId (proposalExecutions s eid)
              \<and> pe_proposalId (proposalExecutions s eid) \<le> proposalCount (governance env))
        \<longrightarrow> treasury_executeProposal env eid s
              = Inl (Revert ''DAOGovernance: proposal does not exist''))"
  using assms
  by (simp add: treasury_executeProposal_def treasury_modifier_defs getProposal_executed_def Let_def)

lemma executeProposal_effect:
  assumes "treasury_executeProposal env eid0 s = Inr (ok, s')"
  shows "totalProposalExecutions s' = totalProposalExecutions s
       \<and> 0 < eid0 \<and> eid0 \<le> totalProposalExecutions s
       \<and> \<not> pe_executed (proposalExecutions s eid0)
       \<and> pe_executed (proposalExecutions s' eid0) = ok
       \<and> (\<forall>eid. eid \<noteq> eid0 \<longrightarrow> proposalExecutions s' eid = proposalExecutions s eid)"
  using assms
  by (auto simp: treasury_executeProposal_def modified_def Let_def
      split: if_splits sum.splits option.splits)

lemma executeProposal_rollback:
  assumes "treasury_executeProposal env eid s = Inr (False, s')"
  shows "s' = s\<lparr>proposalExecutions := (proposalExecutions s)
               (eid := (proposalExecutions s eid)\<lparr>pe_executed := False, executionTime := 0\<rparr>)\<rparr>"
  using assms
  by (auto simp: treasury_executeProposal_def modified_def Let_def
      split: if_splits sum.splits option.splits)

lemma executeProposal_retry:
  assumes "\<not> pe_executed (proposalExecutions s eid)"
  shows "treasury_executeProposal env eid
       (s\<lparr>proposalExecutions := (proposalExecutions s)
            (eid := (proposalExecutions s eid)\<lparr>pe_executed := False, executionTime := t\<rparr>)\<rparr>)
     = treasury_executeProposal env eid s"
  using assms
  by (simp add: treasury_executeProposal_def treasury_modifier_defs getProposal_executed_def
      transferOut_def Let_def split: sum.splits erc20_outcome.splits)

lemma schedule_effect:
  assumes "scheduleProposalExecution env pid rcpt tok amt dat s = Inr s'"
  shows "totalProposalExecutions s' = totalProposalExecutions s + 1
       \<and> (\<forall>eid. eid \<le> totalProposalExecutions s
              \<longrightarrow> proposalExecutions s' eid = proposalExecutions s eid)"
  using assms
  by (auto simp: scheduleProposalExecution_def modified_def Let_def
      split: if_splits option.splits)

lemma other_calls_executions:
  assumes "treasury_apply env c s = Inr s'"
    and "\<forall>pid rcpt tok amt dat. c \<noteq> ScheduleProposalExecution pid rcpt tok amt dat"
    and "\<forall>eid. c \<noteq> TreasuryExecuteProposal eid"
  shows "proposalExecutions s' = proposalExecutions s
       \<and> totalProposalExecutions s' = totalProposalExecutions s"
  using assms
  by (cases c)
     (auto simp: treasury_defs modified_def Let_def
        split: if_splits option.splits erc20_outcome.splits)

lemma treasury_apply_executions:
  assumes "treasury_apply env c s = Inr s'"
  shows "totalProposalExecutions s \<le> totalProposalExecutions s'
       \<and> (eid \<le> totalProposalExecutions s \<and> pe_executed (proposalExecutions s eid)
            \<longrightarrow> pe_executed (proposalExecutions s' eid))
       \<and> (eid \<le> totalProposalExecutions s \<and> \<not> pe_executed (proposalExecutions s eid)
              \<and> pe_executed (proposalExecutions s' eid)
            \<longrightarrow> c = TreasuryExecuteProposal eid
                \<and> treasury_executeProposal env eid s = Inr (True, s'))"
proof (cases c)
  case (TreasuryExecuteProposal eid0)
  with assms obtain ok where run: "treasury_executeProposal env eid0 s = Inr (ok, s')"
    using executeProposal_apply by blast
  from executeProposal_effect [OF run] run TreasuryExecuteProposal show ?thesis
    by (cases "eid = eid0") auto
next
  case (ScheduleProposalExecution pid rcpt tok amt dat)
  with assms have "scheduleProposalExecution env pid rcpt tok amt dat s = Inr s'"
    by simp
  from schedule_effect [OF this] show ?thesis
    by auto
qed (use assms other_calls_executions [of env c s s'] in simp_all)

lemma treasury_run_executed:
  assumes "eid \<le> totalProposalExecutions s" and "pe_executed (proposalExecutions s eid)"
  shows "eid \<le> totalProposalExecutions (treasury_run txs s)
       \<and> pe_executed (proposalExecutions (treasury_run txs s) eid)"
  using assms
proof (induction txs arbitrary: s)
  case Nil
  then show ?case by (simp add: treasury_run_Nil)
next
  case (Cons tx txs)
  have "eid \<le> totalProposalExecutions (treasury_step s tx)
      \<and> pe_executed (proposalExecutions (treasury_step s tx) eid)"
  proof (cases rule: treasury_step_cases [of tx s])
    case (1 e)
    then show ?thesis using Cons.prems by simp
  next
    case (2 s')
    from treasury_apply_executions [OF 2(1), of eid] Cons.prems 2(2) show ?thesis
      by simp
  qed
  then show ?case
    using Cons.IH by (simp add: treasury_run_Cons)
qed


text \<open>
  Claim C6, as the code has it. \<open>executeProposal\<close> of the treasury fails when the
  execution number is unknown or the execution is already executed. For a treasury
  manager or the owner, outside emergency mode, and a known execution that is not yet
  executed, it fails with \<open>proposal not executed in governance\<close> when the referenced
  proposal exists in the governance contract and is not executed there, and with the
  governance contract's own \<open>proposal does not exist\<close> when the governance contract has
  no proposal of that number. When the transfer fails, the call returns with the
  decrements of \<open>balance\<close> and \<open>allocated\<close> put back, the execution still not
  executed, and every later invocation behaves as it would have before the failed
  attempt. After an invocation with a successful transfer the execution stays executed
  through every sequence of transactions and every later invocation fails; and no
  transaction other than an invocation with a successful transfer sets the flag.
\<close>

theorem C6_execute_scheduled:
  "(\<not> (0 < eid \<and> eid \<le> totalProposalExecutions s) \<or> pe_executed (proposalExecutions s eid)
      \<longrightarrow> (\<exists>e. treasury_executeProposal env eid s = Inl e))
   \<and> ((managers s (msg_sender env) \<or> msg_sender env = treasuryOwner s) \<and> \<not> emergencyMode s
       \<and> 0 < eid \<and> eid \<le> totalProposalExecutions s \<and> \<not> pe_executed (proposalExecutions s eid)
      \<longrightarrow> (0 < pe_proposalId (proposalExecutions s eid)
             \<and> pe_proposalId (proposalExecutions s eid) \<le> proposalCount (governance env)
             \<and> \<not> executed (proposals (governance env) (pe_proposalId (proposalExecutions s eid)))
           \<longrightarrow> treasury_executeProposal env eid s
                 = Inl (Revert ''DAOTreasury: proposal not executed in governance'')
               \<and> errorClass (Revert ''DAOTreasury: proposal not executed in governance'')
                 = NotApproved)
        \<and> (\<not> (0 < pe_proposalId (proposalExecutions s eid)
                 \<and> pe_proposalId (proposalExecutions s eid) \<le> proposalCount (governance env))
           \<longrightarrow> treasury_executeProposal env eid s
                 = Inl (Revert ''DAOGovernance: proposal does not exist'')))
   \<and> (treasury_executeProposal env eid s = Inr (False, s')
      \<longrightarrow> tokenBalances s' = tokenBalances s
          \<and> \<not> pe_executed (proposalExecutions s' eid)
          \<and> totalProposalExecutions s' = totalProposalExecutions s
          \<and> treasury_executeProposal env2 eid s' = treasury_executeProposal env2 eid s)
   \<and> (treasury_executeProposal env eid s = Inr (True, s'')
      \<longrightarrow> pe_executed (proposalExecutions (treasury_run txs s'') eid)
          \<and> (\<exists>e. treasury_executeProposal env2 eid (treasury_run txs s'') = Inl e))
   \<and> (treasury_apply env3 c s = Inr s3 \<and> eid \<le> totalProposalExecutions s
        \<and> \<not> pe_executed (proposalExecutions s eid) \<and> pe_executed (proposalExecutions s3 eid)
      \<longrightarrow> c = TreasuryExecuteProposal eid
          \<and> treasury_executeProposal env3 eid s = Inr (True, s3))"
proof (intro conjI impI)
  assume "\<not> (0 < eid \<and> eid \<le> totalProposalExecutions s) \<or> pe_executed (proposalExecutions s eid)"
  then show "\<exists>e. treasury_executeProposal env eid s = Inl e"
    by (rule executeProposal_refused)
next
  assume pre: "(managers s (msg_sender env) \<or> msg_sender env = treasuryOwner s) \<and> \<not> emergencyMode s
       \<and> 0 < eid \<and> eid \<le> totalProposalExecutions s \<and> \<not> pe_executed (proposalExecutions s eid)"
    and "0 < pe_proposalId (proposalExecutions s eid)
        \<and> pe_proposalId (proposalExecutions s eid) \<le> proposalCount (governance env)
        \<and> \<not> executed (proposals (governance env) (pe_proposalId (proposalExecutions s eid)))"
  then show "treasury_executeProposal env eid s
      = Inl (Revert ''DAOTreasury: proposal not executed in governance'')"
    using executeProposal_gate [of s env eid] by blast
next
  show "errorClass (Revert ''DAOTreasury: proposal not executed in governance'') = NotApproved"
    by (simp add: stateMessages_def validationMessages_def)
next
  assume pre: "(managers s (msg_sender env) \<or> msg_sender env = treasuryOwner s) \<and> \<not> emergencyMode s
       \<and> 0 < eid \<and> eid \<le> totalProposalExecutions s \<and> \<not> pe_executed (proposalExecutions s eid)"
    and "\<not> (0 < pe_proposalId (proposalExecutions s eid)
        \<and> pe_proposalId (proposalExecutions s eid) \<le> proposalCount (governance env))"
  then show "treasury_executeProposal env eid s
      = Inl (Revert ''DAOGovernance: proposal does not exist'')"
    using executeProposal_gate [of s env eid] by blast
next
  assume failed: "treasury_executeProposal env eid s = Inr (False, s')"
  note effect = executeProposal_effect [OF failed]
  note state = executeProposal_rollback [OF failed]
  show "tokenBalances s' = tokenBalances s"
    by (subst state) simp
  show "\<not> pe_executed (proposalExecutions s' eid)"
    using effect by simp
  show "totalProposalExecutions s' = totalProposalExecutions s"
    using effect by simp
  show "treasury_executeProposal env2 eid s' = treasury_executeProposal env2 eid s"
    using effect by (subst state) (simp add: executeProposal_retry)
next
  assume paid: "treasury_executeProposal env eid s = Inr (True, s'')"
  from executeProposal_effect [OF paid]
  have "eid \<le> totalProposalExecutions s''" "pe_executed (proposalExecutions s'' eid)"
    by simp_all
  from treasury_run_executed [OF this, of txs]
  show "pe_executed (proposalExecutions (treasury_run txs s'') eid)"
    and "\<exists>e. treasury_executeProposal env2 eid (treasury_run txs s'') = Inl e"
    using executeProposal_refused by blast+
next
  assume "treasury_apply env3 c s = Inr s3 \<and> eid \<le> totalProposalExecutions s
      \<and> \<not> pe_executed (proposalExecutions s eid) \<and> pe_executed (proposalExecutions s3 eid)"
  then show "c = TreasuryExecuteProposal eid"
    and "treasury_executeProposal env3 eid s = Inr (True, s3)"
    using treasury_apply_executions [of env3 c s s3 eid] by blast+
qed

lemma afterFinalize_facts:
  "proposalCount afterFinalize = 1 \<and> executed (proposals afterFinalize 1)"
  using afterVote_proposal
  by (simp add: afterFinalize_def gov_run_def gov_step_def updateVotingConfig_def
      executeProposal_def modifier_defs tx_at_def defaultVotingConfig_def Let_def)

lemma treasuryDangling_eq:
  "treasuryDangling = treasuryFunded\<lparr>
      tokenBalances := (\<lambda>_. emptyTokenBalance)
        (0 := \<lparr>tb_token = 0, balance = 9 * 10 ^ 18, allocated = 6 * 10 ^ 18,
                available = 3 * 10 ^ 18\<rparr>),
      totalProposalExecutions := 1,
      proposalExecutions := (\<lambda>_. emptyExecution)
        (1 := \<lparr>pe_proposalId = 7, recipient = carol, pe_token = 0, amount = 2 * 10 ^ 18,
                data = [], pe_executed = False, executionTime = 0\<rparr>)\<rparr>"
  by (simp add: treasuryDangling_def treasury_run_def treasury_step_def treasuryFunded_eq
      treasuryGenesis_eq scheduleProposalExecution_def
      treasury_modifier_defs treasury_tx_def emptyTokenBalance_def
      MAX_UINT256_def example_defs Let_def)

lemma scheduled_facts:
  "treasuryOwner treasuryScheduled = ownerAddress \<and> \<not> emergencyMode treasuryScheduled
   \<and> totalProposalExecutions treasuryScheduled = 1
   \<and> proposalExecutions treasuryScheduled 1
       = \<lparr>pe_proposalId = 1, recipient = carol, pe_token = 0, amount = 2 * 10 ^ 18,
          data = [], pe_executed = False, executionTime = 0\<rparr>
   \<and> tokenBalances treasuryScheduled 0
       = \<lparr>tb_token = 0, balance = 9 * 10 ^ 18, allocated = 6 * 10 ^ 18, available = 3 * 10 ^ 18\<rparr>"
  by (simp add: treasuryScheduled_eq treasuryFunded_eq treasuryGenesis_eq)

lemma failed_attempt:
  "treasury_executeProposal (treasury_tx ownerAddress 0 1700200 False afterFinalize) 1 treasuryScheduled
     = Inr (False, treasuryScheduled)"
  using afterFinalize_facts scheduled_facts
  by (simp add: treasury_executeProposal_def treasury_modifier_defs getProposal_executed_def
      transferOut_def treasury_tx_def MAX_UINT256_def Let_def fun_upd_idem)

lemma paid_attempt:
  "treasury_executeProposal (treasury_tx ownerAddress 0 1700300 True afterFinalize) 1 treasuryScheduled
     = Inr (True, treasuryPaid)"
proof -
  have "\<exists>s'. treasury_executeProposal (treasury_tx ownerAddress 0 1700300 True afterFinalize) 1
      treasuryScheduled = Inr (True, s')"
    using afterFinalize_facts scheduled_facts
    by (simp add: treasury_executeProposal_def treasury_modifier_defs getProposal_executed_def
        transferOut_def treasury_tx_def MAX_UINT256_def Let_def)
  then obtain s' where run: "treasury_executeProposal
      (treasury_tx ownerAddress 0 1700300 True afterFinalize) 1 treasuryScheduled = Inr (True, s')"
    by blast
  then have "treasuryPaid = s'"
    by (simp add: treasuryPaid_def treasury_run_def treasury_step_def)
  with run show ?thesis by simp
qed


theorem C6_execute_scheduled_witness:
  "treasury_executeProposal (treasury_tx ownerAddress 0 1700200 True afterVote) 1 treasuryScheduled
     = Inl (Revert ''DAOTreasury: proposal not executed in governance'')
   \<and> treasury_executeProposal (treasury_tx ownerAddress 0 1700200 False afterFinalize) 1
       treasuryScheduled = Inr (False, treasuryScheduled)
   \<and> treasury_executeProposal (treasury_tx ownerAddress 0 1700300 True afterFinalize) 1
       treasuryScheduled = Inr (True, treasuryPaid)
   \<and> pe_executed (proposalExecutions treasuryPaid 1)
   \<and> (\<exists>e. treasury_executeProposal (treasury_tx ownerAddress 0 1700400 True afterFinalize) 1
          treasuryPaid = Inl e)"
proof -
  let ?early = "treasury_tx ownerAddress 0 1700200 True afterVote"
  have caller: "(managers treasuryScheduled (msg_sender ?early)
        \<or> msg_sender ?early = treasuryOwner treasuryScheduled)
      \<and> \<not> emergencyMode treasuryScheduled
      \<and> (0::nat) < 1 \<and> 1 \<le> totalProposalExecutions treasuryScheduled
      \<and> \<not> pe_executed (proposalExecutions treasuryScheduled 1)"
    using scheduled_facts by (simp add: treasury_tx_def)
  have pending: "0 < pe_proposalId (proposalExecutions treasuryScheduled 1)
      \<and> pe_proposalId (proposalExecutions treasuryScheduled 1) \<le> proposalCount (governance ?early)
      \<and> \<not> executed (proposals (governance ?early)
            (pe_proposalId (proposalExecutions treasuryScheduled 1)))"
    using scheduled_facts afterVote_proposal by (simp add: treasury_tx_def)
  from C6_execute_scheduled [of 1 treasuryScheduled ?early] caller pending
  have refused: "treasury_executeProposal ?early 1 treasuryScheduled
      = Inl (Revert ''DAOTreasury: proposal not executed in governance'')"
    by blast
  from C6_execute_scheduled [of 1 treasuryScheduled
      "treasury_tx ownerAddress 0 1700300 True afterFinalize" _
      "treasury_tx ownerAddress 0 1700400 True afterFinalize" treasuryPaid "[]"] paid_attempt
  have later: "pe_executed (proposalExecutions (treasury_run [] treasuryPaid) 1)
      \<and> (\<exists>e. treasury_executeProposal (treasury_tx ownerAddress 0 1700400 True afterFinalize) 1
            (treasury_run [] treasuryPaid) = Inl e)"
    by blast
  from refused failed_attempt paid_attempt later show ?thesis
    by (simp add: treasury_run_Nil)
qed

text \<open>
  The claim as it was stated: an execution scheduled for proposal 7, which the governance
  contract does not have, is refused with the governance contract's \<open>proposal does not
  exist\<close>, an unknown-proposal error, not with the treasury's not-approved error.
\<close>

theorem C6_counterexample:
  "pe_proposalId (proposalExecutions treasuryDangling 1) = 7
   \<and> proposalCount afterFinalize = 1
   \<and> treasury_executeProposal (treasury_tx ownerAddress 0 1700300 True afterFinalize) 1
       treasuryDangling = Inl (Revert ''DAOGovernance: proposal does not exist'')
   \<and> errorClass (Revert ''DAOGovernance: proposal does not exist'') = NotFound
   \<and> errorClass (Revert ''DAOGovernance: proposal does not exist'') \<noteq> NotApproved"
proof -
  have "treasury_executeProposal (treasury_tx ownerAddress 0 1700300 True afterFinalize) 1
      treasuryDangling = Inl (Revert ''DAOGovernance: proposal does not exist'')"
    using afterFinalize_facts
    by (simp add: treasuryDangling_eq treasuryFunded_eq treasuryGenesis_eq
        treasury_executeProposal_def treasury_modifier_defs getProposal_executed_def
        treasury_tx_def Let_def)
  then show ?thesis
    using afterFinalize_facts
    by (simp add: treasuryDangling_eq stateMessages_def validationMessages_def)
qed

end
